(* ===== verification/Prelude.thy ===== *)
theory Prelude
  imports Main "HOL-Library.Word"
begin

text \<open>
  Shared vocabulary of the tater-board model: the machine types of the Rust code
  (\<open>u64\<close> identifiers and counts, \<open>usize\<close> page arithmetic on a 64-bit target),
  the named collections of evaluation equations that the component theories fill,
  and generic lemmas on lists and words used by more than one component.
\<close>

section \<open>Machine types\<close>

type_synonym u64 = "64 word"
type_synonym usize = "64 word"

text \<open>serenity's \<open>UserId\<close>, \<open>ChannelId\<close> and \<open>GuildId\<close> are newtypes over \<open>u64\<close>.\<close>

type_synonym user_id = u64
type_synonym channel_id = u64
type_synonym guild_id = u64

section \<open>Lemma collections\<close>

named_theorems model_defs "definitions of the model unfolded when a closed run is evaluated"
named_theorems frame_simps "frame lemmas: fields an operation leaves unchanged"

section \<open>Generic lemmas on lists\<close>

lemma find_enumerate_Some_iff:
  "find (\<lambda>(i, x). P x) (enumerate n xs) = Some (i, x) \<longleftrightarrow>
     n \<le> i \<and> i < n + length xs \<and> xs ! (i - n) = x \<and> P x \<and> (\<forall>j < i - n. \<not> P (xs ! j))"
proof (induction xs arbitrary: n)
  case Nil
  then show ?case by simp
next
  case (Cons y ys)
  show ?case
  proof (cases "P y")
    case True
    then show ?thesis by (auto simp: nth_Cons' split: if_splits)
  next
    case False
    have "find (\<lambda>(i, x). P x) (enumerate n (y # ys)) = find (\<lambda>(i, x). P x) (enumerate (Suc n) ys)"
      using False by simp
    also have "\<dots> = Some (i, x) \<longleftrightarrow>
        Suc n \<le> i \<and> i < Suc n + length ys \<and> ys ! (i - Suc n) = x \<and> P x \<and> (\<forall>j < i - Suc n. \<not> P (ys ! j))"
      by (rule Cons.IH)
    also have "\<dots> \<longleftrightarrow> n \<le> i \<and> i < n + length (y # ys) \<and> (y # ys) ! (i - n) = x \<and> P x \<and>
        (\<forall>j < i - n. \<not> P ((y # ys) ! j))"
    proof
      assume "Suc n \<le> i \<and> i < Suc n + length ys \<and> ys ! (i - Suc n) = x \<and> P x \<and> (\<forall>j < i - Suc n. \<not> P (ys ! j))"
      with False show "n \<le> i \<and> i < n + length (y # ys) \<and> (y # ys) ! (i - n) = x \<and> P x \<and> (\<forall>j < i - n. \<not> P ((y # ys) ! j))"
        by (auto simp: nth_Cons' Suc_diff_Suc)
    next
      assume r: "n \<le> i \<and> i < n + length (y # ys) \<and> (y # ys) ! (i - n) = x \<and> P x \<and> (\<forall>j < i - n. \<not> P ((y # ys) ! j))"
      with False have "i \<noteq> n" by auto
      have "\<forall>j < i - Suc n. \<not> P (ys ! j)"
      proof (intro allI impI)
        fix j
        assume "j < i - Suc n"
        then have "Suc j < i - n" by arith
        with r have "\<not> P ((y # ys) ! Suc j)" by blast
        then show "\<not> P (ys ! j)" by simp
      qed
      with r \<open>i \<noteq> n\<close> show "Suc n \<le> i \<and> i < Suc n + length ys \<and> ys ! (i - Suc n) = x \<and> P x \<and> (\<forall>j < i - Suc n. \<not> P (ys ! j))"
        by (auto simp: nth_Cons' Suc_diff_Suc)
    qed
    finally show ?thesis .
  qed
qed

lemma find_enumerate_None_iff:
  "find (\<lambda>(i, x). P x) (enumerate n xs) = None \<longleftrightarrow> (\<forall>x \<in> set xs. \<not> P x)"
  by (induction xs arbitrary: n) auto

lemma find_enumerate_Suc:
  "find P (enumerate (Suc n) xs) = map_option (apfst Suc) (find (\<lambda>p. P (apfst Suc p)) (enumerate n xs))"
  by (induction xs arbitrary: n) auto

lemma distinct_removeAll [simp]: "distinct xs \<Longrightarrow> distinct (removeAll x xs)"
  by (induction xs) auto

section \<open>Generic lemmas on words\<close>

lemma unat_lt_2p64 [simp]: "unat (w :: 64 word) < 18446744073709551616"
  using unsigned_less [of w] by simp

end
