(* ===== verification/Rust_Text.thy ===== *)
theory Rust_Text
  imports Prelude "HOL-Library.Sublist"
begin

text \<open>
  The string operations of Rust's standard library that \<open>handle_commands\<close> applies to
  a message (src/src/handler/commands.rs): \<open>str::starts_with\<close> (line 33),
  \<open>str::split_whitespace\<close> (line 56), \<open>str::parse::<u64>\<close> and
  \<open>str::parse::<usize>\<close> (lines 89, 188, 220, 239, 264, 319, 342) with the
  \<open>Display\<close> text of \<open>ParseIntError\<close>, and the decimal \<open>Display\<close> of integers used by
  every \<open>format!\<close>. A Rust \<open>&str\<close> is a UTF-8 byte string; here it is a \<open>string\<close>,
  one \<open>char\<close> per byte, so that multi-byte whitespace is matched byte by byte.
\<close>

section \<open>Unicode whitespace, byte by byte\<close>

text \<open>
  \<open>char::is_whitespace\<close> holds for U+0009..U+000D, U+0020, U+0085, U+00A0, U+1680,
  U+2000..U+200A, U+2028, U+2029, U+202F, U+205F and U+3000. \<open>utf8_ws_len\<close> reads the
  byte values at the start of a string and returns the length of the UTF-8 encoding of
  such a code point there, or 0 when the string does not start with whitespace.
\<close>

fun utf8_ws_len :: "nat list \<Rightarrow> nat" where
  "utf8_ws_len [] = 0"
| "utf8_ws_len (b # bs) =
     (if (9 \<le> b \<and> b \<le> 13) \<or> b = 32 then 1
      else case bs of
        [] \<Rightarrow> 0
      | c # cs \<Rightarrow>
          (if b = 0xC2 \<and> (c = 0x85 \<or> c = 0xA0) then 2
           else case cs of
             [] \<Rightarrow> 0
           | d # _ \<Rightarrow>
               (if b = 0xE1 \<and> c = 0x9A \<and> d = 0x80 then 3
                else if b = 0xE2 \<and> c = 0x80 \<and> ((0x80 \<le> d \<and> d \<le> 0x8A) \<or> d = 0xA8 \<or> d = 0xA9 \<or> d = 0xAF) then 3
                else if b = 0xE2 \<and> c = 0x81 \<and> d = 0x9F then 3
                else if b = 0xE3 \<and> c = 0x80 \<and> d = 0x80 then 3
                else 0)))"

definition ws_len :: "string \<Rightarrow> nat" where
  "ws_len s = utf8_ws_len (map of_char (take 3 s))"

section \<open>split_whitespace\<close>

text \<open>
  \<open>s.split_whitespace()\<close> is \<open>s.split(char::is_whitespace).filter(|t| !t.is_empty())\<close>:
  the maximal runs of non-whitespace. The scan keeps the current token reversed in
  \<open>cur\<close>; a whitespace code point ends it, and empty tokens are never emitted.
\<close>

function split_ws_from :: "string \<Rightarrow> string \<Rightarrow> string list" where
  "split_ws_from [] cur = (if cur = [] then [] else [rev cur])"
| "split_ws_from (c # cs) cur =
     (let n = ws_len (c # cs) in
      if 0 < n then
        (if cur = [] then split_ws_from (drop n (c # cs)) []
         else rev cur # split_ws_from (drop n (c # cs)) [])
      else split_ws_from cs (c # cur))"
  by pat_completeness auto
termination
  by (relation "measure (\<lambda>(s, cur). length s)") auto

definition split_whitespace :: "string \<Rightarrow> string list" where
  "split_whitespace s = split_ws_from s []"

text \<open>\<open>[String]::join(sep)\<close>: the pieces with \<open>sep\<close> between each two.\<close>

fun join_str :: "string \<Rightarrow> string list \<Rightarrow> string" where
  "join_str sep [] = []"
| "join_str sep [x] = x"
| "join_str sep (x # y # xs) = x @ sep @ join_str sep (y # xs)"

text \<open>A token free of whitespace: no code point of it starts a whitespace encoding.\<close>

fun ws_free :: "string \<Rightarrow> bool" where
  "ws_free [] = True"
| "ws_free (c # t) \<longleftrightarrow> ws_len (c # t) = 0 \<and> ws_free t"

section \<open>Integer parsing\<close>

text \<open>
  \<open>u64::from_str\<close> (\<open>from_str_radix\<close> with radix 10): the empty string is an \<open>Empty\<close>
  error; a lone sign is \<open>InvalidDigit\<close>; one leading \<open>+\<close> is skipped (a leading
  \<open>-\<close> is not a sign for an unsigned type and fails as a digit); each byte is checked to
  be a digit first, then \<open>checked_mul\<close> by 10 and \<open>checked_add\<close> of the digit, either
  overflow being \<open>PosOverflow\<close>. \<open>usize\<close> on the 64-bit target parses the same way.
\<close>

datatype int_error_kind = Empty | InvalidDigit | PosOverflow

fun int_error_text :: "int_error_kind \<Rightarrow> string" where
  "int_error_text Empty = ''cannot parse integer from empty string''"
| "int_error_text InvalidDigit = ''invalid digit found in string''"
| "int_error_text PosOverflow = ''number too large to fit in target type''"

definition digit_val :: "char \<Rightarrow> nat option" where
  "digit_val c = (let k = of_char c :: nat in if 48 \<le> k \<and> k \<le> 57 then Some (k - 48) else None)"

fun parse_digits :: "u64 \<Rightarrow> string \<Rightarrow> int_error_kind + u64" where
  "parse_digits acc [] = Inr acc"
| "parse_digits acc (c # cs) =
     (case digit_val c of
        None \<Rightarrow> Inl InvalidDigit
      | Some d \<Rightarrow>
          (if 18446744073709551616 \<le> unat acc * 10 then Inl PosOverflow
           else if 18446744073709551616 \<le> unat (acc * 10) + d then Inl PosOverflow
           else parse_digits (acc * 10 + of_nat d) cs))"

definition parse_u64 :: "string \<Rightarrow> int_error_kind + u64" where
  "parse_u64 s =
     (case s of
        [] \<Rightarrow> Inl Empty
      | c # cs \<Rightarrow>
          (if (c = CHR ''+'' \<or> c = CHR ''-'') \<and> cs = [] then Inl InvalidDigit
           else if c = CHR ''+'' then parse_digits 0 cs
           else parse_digits 0 s))"

section \<open>Decimal Display of integers\<close>

definition digit_char :: "nat \<Rightarrow> char" where
  "digit_char d = ''0123456789'' ! d"

fun show_nat :: "nat \<Rightarrow> string" where
  "show_nat n = (if n < 10 then [digit_char n] else show_nat (n div 10) @ [digit_char (n mod 10)])"

declare show_nat.simps [simp del]

definition show_u64 :: "u64 \<Rightarrow> string" where
  "show_u64 w = show_nat (unat w)"

section \<open>serenity's mention formats\<close>

text \<open>\<open>UserId::mention\<close> and \<open>ChannelId::mention\<close> display as \<open><@id>\<close> and \<open><#id>\<close>.\<close>

definition mention_user :: "user_id \<Rightarrow> string" where
  "mention_user u = ''<@'' @ show_u64 u @ ''>''"

definition mention_channel :: "channel_id \<Rightarrow> string" where
  "mention_channel c = ''<#'' @ show_u64 c @ ''>''"

definition newline :: string where
  "newline = [CHR 0x0A]"

section \<open>Lemmas: integer parsing against Display\<close>

lemma unat_word_of_nat_64 [simp]:
  "n < 18446744073709551616 \<Longrightarrow> unat (word_of_nat n :: 64 word) = n"
  by (simp add: unat_of_nat)

lemma digit_char_cases: "(d::nat) < 10 \<Longrightarrow> d = 0 \<or> d = 1 \<or> d = 2 \<or> d = 3 \<or> d = 4 \<or> d = 5 \<or> d = 6 \<or> d = 7 \<or> d = 8 \<or> d = 9"
  by arith

lemma digit_val_digit_char [simp]: "d < 10 \<Longrightarrow> digit_val (digit_char d) = Some d"
  by (drule digit_char_cases) (auto simp: digit_val_def digit_char_def)

lemma digit_char_not_sign: "d < 10 \<Longrightarrow> digit_char d \<noteq> CHR ''+'' \<and> digit_char d \<noteq> CHR ''-''"
  by (drule digit_char_cases) (auto simp: digit_char_def)

lemma parse_digits_snoc:
  "parse_digits acc (xs @ [c]) =
     (case parse_digits acc xs of Inl e \<Rightarrow> Inl e | Inr a \<Rightarrow> parse_digits a [c])"
  by (induction acc xs rule: parse_digits.induct) (auto split: option.splits)

lemma show_nat_snoc: "10 \<le> n \<Longrightarrow> show_nat n = show_nat (n div 10) @ [digit_char (n mod 10)]"
  by (simp add: show_nat.simps [of n])

lemma show_nat_digit: "n < 10 \<Longrightarrow> show_nat n = [digit_char n]"
  by (simp add: show_nat.simps [of n])

lemma show_nat_Cons: "\<exists>d cs. show_nat n = digit_char d # cs \<and> d < 10"
proof (induction n rule: show_nat.induct)
  case (1 n)
  then show ?case by (cases "n < 10") (auto simp: show_nat.simps [of n])
qed

lemma parse_digits_step:
  assumes "q < 18446744073709551616" and "d < 10"
  shows "parse_digits (word_of_nat q) [digit_char d] =
    (if q * 10 + d < 18446744073709551616 then Inr (word_of_nat (q * 10 + d)) else Inl PosOverflow)"
proof (cases "q * 10 < 18446744073709551616")
  case True
  have u1: "unat (word_of_nat q :: u64) * 10 = q * 10"
    using assms(1) by simp
  have "word_of_nat q * 10 = (word_of_nat (q * 10) :: u64)"
    by simp
  then have u2: "unat (word_of_nat q * 10 :: u64) = q * 10"
    using True by (simp only: unat_word_of_nat_64)
  have w: "word_of_nat q * 10 + word_of_nat d = (word_of_nat (q * 10 + d) :: u64)"
    by simp
  show ?thesis
    using assms(2) True by (simp only: parse_digits.simps digit_val_digit_char option.case u1 u2 w) simp
next
  case False
  then show ?thesis using assms by simp
qed

lemma parse_digits_show_nat:
  "parse_digits 0 (show_nat n) =
     (if n < 18446744073709551616 then Inr (word_of_nat n) else Inl PosOverflow)"
proof (induction n rule: show_nat.induct)
  case (1 n)
  show ?case
  proof (cases "n < 10")
    case True
    then show ?thesis by (simp add: show_nat.simps [of n])
  next
    case False
    let ?q = "n div 10" and ?d = "n mod 10"
    have n_eq: "?q * 10 + ?d = n" by simp
    have IH: "parse_digits 0 (show_nat ?q) =
        (if ?q < 18446744073709551616 then Inr (word_of_nat ?q) else Inl PosOverflow)"
      using "1.IH" False by simp
    have split: "parse_digits 0 (show_nat n) =
        (case parse_digits 0 (show_nat ?q) of Inl e \<Rightarrow> Inl e | Inr a \<Rightarrow> parse_digits a [digit_char ?d])"
      using False by (simp only: show_nat_snoc parse_digits_snoc not_less)
    show ?thesis
    proof (cases "?q < 18446744073709551616")
      case True
      have "parse_digits (word_of_nat ?q) [digit_char ?d] =
          (if n < 18446744073709551616 then Inr (word_of_nat n) else Inl PosOverflow)"
        using parse_digits_step [OF True, of ?d] n_eq by simp
      with split IH True show ?thesis by simp
    next
      case False
      then have "\<not> n < 18446744073709551616" by simp
      with split IH False show ?thesis by simp
    qed
  qed
qed
text \<open>
  C37. Parsing the decimal text of a number gives that number as a \<open>u64\<close> when it is
  below \<open>2^64\<close>, and the overflow error otherwise: the id and threshold arguments
  round-trip through their display, and too large a value is rejected, never wrapped.
\<close>

theorem parse_u64_show_nat:
  "parse_u64 (show_nat n) =
     (if n < 18446744073709551616 then Inr (word_of_nat n) else Inl PosOverflow)"
proof -
  obtain d cs where sn: "show_nat n = digit_char d # cs" and "d < 10"
    using show_nat_Cons by blast
  from \<open>d < 10\<close> have "digit_char d \<noteq> CHR ''+'' \<and> digit_char d \<noteq> CHR ''-''"
    by (rule digit_char_not_sign)
  then have "parse_u64 (show_nat n) = parse_digits 0 (show_nat n)"
    by (simp add: parse_u64_def sn)
  then show ?thesis by (simp add: parse_digits_show_nat)
qed

section \<open>Lemmas: tokenizing\<close>

lemma split_ws_from_nonempty: "t \<in> set (split_ws_from s cur) \<Longrightarrow> t \<noteq> []"
  by (induction s cur rule: split_ws_from.induct) (auto simp: Let_def split: if_splits)

lemma ws_len_space [simp]: "ws_len (CHR '' '' # r) = 1"
  by (simp add: ws_len_def)

lemma ws_len_append_space: "u \<noteq> [] \<Longrightarrow> ws_len (u @ CHR '' '' # r) = ws_len u"
proof (cases u rule: remdups_adj.cases)
  case (3 a b rest)
  then show ?thesis
    by (cases rest) (auto simp: ws_len_def split: list.splits)
qed (auto simp: ws_len_def split: list.splits)

lemma split_ws_from_token:
  "ws_free t \<Longrightarrow> split_ws_from (t @ CHR '' '' # r) cur = split_ws_from (CHR '' '' # r) (rev t @ cur)"
proof (induction t arbitrary: cur)
  case Nil
  then show ?case by simp
next
  case (Cons c t)
  then have "ws_len (c # t @ CHR '' '' # r) = 0"
    using ws_len_append_space [of "c # t" r] by (simp add: ws_free.simps(2))
  with Cons show ?case by (simp add: ws_free.simps(2))
qed

lemma split_ws_from_last:
  "ws_free t \<Longrightarrow> split_ws_from t cur = split_ws_from [] (rev t @ cur)"
proof (induction t arbitrary: cur)
  case Nil
  then show ?case by simp
next
  case (Cons c t)
  then show ?case by (simp add: ws_free.simps(2))
qed

text \<open>
  C38. Splitting on whitespace recovers any list of non-empty whitespace-free tokens
  joined by single spaces: the command line \<open><trigger> <command> <args>\<close> is read
  back token by token.
\<close>

theorem split_whitespace_join:
  "\<forall>t \<in> set ts. t \<noteq> [] \<and> ws_free t \<Longrightarrow> split_whitespace (join_str '' '' ts) = ts"
proof (induction ts rule: induct_list012)
  case 1
  then show ?case by (simp add: split_whitespace_def)
next
  case (2 x)
  then show ?case by (simp add: split_whitespace_def split_ws_from_last)
next
  case (3 x y xs)
  then show ?case
  by (simp add: split_whitespace_def split_ws_from_token)
qed
theorem split_whitespace_join_witness:
  "split_whitespace (join_str '' '' [''!!'', ''blacklist'', ''123'']) = [''!!'', ''blacklist'', ''123'']"
  using split_whitespace_join [of "[''!!'', ''blacklist'', ''123'']"] by (simp add: ws_len_def)

lemma utf8_ws_len_append:
  assumes "utf8_ws_len xs \<noteq> 0" shows "utf8_ws_len (xs @ ys) = utf8_ws_len xs"
proof (cases xs)
  case Nil
  then show ?thesis using assms by simp
next
  case (Cons b bs)
  show ?thesis
  proof (cases "(9 \<le> b \<and> b \<le> 13) \<or> b = 32")
    case True
    then show ?thesis using Cons by simp
  next
    case nw: False
    then obtain c cs where bs: "bs = c # cs" using assms Cons by (cases bs) auto
    show ?thesis
    proof (cases "b = 0xC2 \<and> (c = 0x85 \<or> c = 0xA0)")
      case True
      then show ?thesis using Cons bs nw by simp
    next
      case False
      then obtain d ds where cs: "cs = d # ds" using assms Cons bs nw by (cases cs) auto
      show ?thesis using Cons bs cs nw False by simp
    qed
  qed
qed

lemma ws_len_append: "u \<noteq> [] \<Longrightarrow> ws_len u \<noteq> 0 \<Longrightarrow> ws_len (u @ r) = ws_len u"
proof -
  assume n: "ws_len u \<noteq> 0"
  have "take 3 (u @ r) = take 3 u @ take (3 - length u) r" by simp
  then show ?thesis using n utf8_ws_len_append [of "map of_char (take 3 u)" "map of_char (take (3 - length u) r)"]
    by (simp add: ws_len_def)
qed

lemma ws_len_append_zero: "u \<noteq> [] \<Longrightarrow> ws_len (u @ r) = 0 \<Longrightarrow> ws_len u = 0"
  using ws_len_append by fastforce

lemma ws_free_drop: "ws_free t \<longleftrightarrow> (\<forall>k < length t. ws_len (drop k t) = 0)"
proof (induction t)
  case Nil
  then show ?case by simp
next
  case (Cons c t)
  then show ?case by (auto simp: less_Suc_eq_0_disj)
qed

lemma ws_free_rev_cur:
  assumes "\<forall>k < length cur. ws_len (drop k (rev cur @ s)) = 0"
  shows "ws_free (rev cur)"
  unfolding ws_free_drop
proof (intro allI impI)
  fix k assume k: "k < length (rev cur)"
  then have "ws_len (drop k (rev cur) @ s) = 0" using assms by simp
  moreover have "drop k (rev cur) \<noteq> []" using k by simp
  ultimately show "ws_len (drop k (rev cur)) = 0" by (rule ws_len_append_zero [rotated])
qed

lemma split_ws_from_ws_free:
  "(\<forall>k < length cur. ws_len (drop k (rev cur @ s)) = 0) \<Longrightarrow> t \<in> set (split_ws_from s cur) \<Longrightarrow> ws_free t"
proof (induction s cur rule: split_ws_from.induct)
  case (1 cur)
  then show ?case using ws_free_rev_cur [of cur "[]"] by (simp split: if_splits)
next
  case (2 c cs cur)
  show ?case
  proof (cases "0 < ws_len (c # cs)")
    case True
    then show ?thesis
      using 2 ws_free_rev_cur [of cur "c # cs"] by (auto simp: Let_def split: if_splits)
  next
    case False
    have "\<forall>k < length (c # cur). ws_len (drop k (rev (c # cur) @ cs)) = 0"
    proof (intro allI impI)
      fix k assume "k < length (c # cur)"
      then consider "k < length cur" | "k = length cur" by fastforce
      then show "ws_len (drop k (rev (c # cur) @ cs)) = 0"
      proof cases
        case 1
        then show ?thesis using "2.prems"(1) by simp
      next
        case 2
        then show ?thesis using False by simp
      qed
    qed
    then show ?thesis using 2 False by (simp add: Let_def)
  qed
qed

lemma split_ws_from_count:
  "2 * length (split_ws_from s cur) \<le> length s + (if cur = [] then 1 else 2)"
proof (induction s cur rule: split_ws_from.induct)
  case (1 cur)
  then show ?case by simp
next
  case (2 c cs cur)
  show ?case
  proof (cases "0 < ws_len (c # cs)")
    case True
    have "length (drop (ws_len (c # cs)) (c # cs)) \<le> length cs"
      using True by simp
    then show ?thesis using 2 True by (auto simp: Let_def)
  next
    case False
    then show ?thesis using 2 by (cases cur) (simp_all add: Let_def)
  qed
qed

text \<open>
  C39. Every token of \<open>split_whitespace\<close> is nonempty and free of whitespace: no code
  point of it starts one of the UTF-8 encodings of Unicode whitespace.
\<close>

theorem split_whitespace_tokens:
  "list_all (\<lambda>t. t \<noteq> [] \<and> ws_free t) (split_whitespace s)"
  unfolding split_whitespace_def list_all_iff
  using split_ws_from_nonempty split_ws_from_ws_free [of "[]"] by auto

text \<open>
  C40. A string of \<open>n\<close> bytes has at most \<open>(n + 1) div 2\<close> tokens: every token takes at
  least one byte and two tokens are separated by at least one whitespace code point, so
  the scan never emits an empty token and never splits a run of non-whitespace.
\<close>

theorem split_whitespace_count:
  "2 * length (split_whitespace s) \<le> length s + 1"
  using split_ws_from_count [of s "[]"] by (simp add: split_whitespace_def)

end
