(* ===== verification/Guild_State.thy ===== *)
theory Guild_State
  imports Rust_Text
begin

text \<open>
  The per-guild state that \<open>handle_commands\<close> reads and mutates through \<open>this\<close>
  (src/src/handler/commands.rs, lines 30-426): a \<open>Handler\<close> holding a \<open>config\<close> and
  the two count tables \<open>taters_got\<close> and \<open>taters_given\<close>. The \<open>Handler\<close> and
  \<open>Config\<close> structs are declared in the parent module, outside src/; their fields are
  the ones commands.rs uses, with the types its code fixes (\<open>u64\<close> for the threshold at
  line 220, \<open>HashSet\<close> for admins and blacklist by \<open>insert\<close>/\<open>remove\<close> returning a
  \<open>bool\<close>, a map from \<open>UserId\<close> to the count for the tables). A \<open>HashSet\<close> or
  \<open>HashMap\<close> is modelled by a duplicate-free list whose order stands for the
  (unspecified) iteration order; \<open>abs_config\<close> forgets the order.
\<close>

section \<open>HashSet as a duplicate-free list\<close>

text \<open>
  \<open>HashSet::insert\<close> returns \<open>true\<close> when the value was not present;
  \<open>HashSet::remove\<close> returns \<open>true\<close> when it was.
\<close>

definition hs_insert :: "'a \<Rightarrow> 'a list \<Rightarrow> bool \<times> 'a list" where
  "hs_insert x xs = (if x \<in> set xs then (False, xs) else (True, xs @ [x]))"

definition hs_remove :: "'a \<Rightarrow> 'a list \<Rightarrow> bool \<times> 'a list" where
  "hs_remove x xs = (if x \<in> set xs then (True, removeAll x xs) else (False, xs))"

section \<open>Reactions, configuration and the handler\<close>

text \<open>serenity's \<open>ReactionType\<close>: a custom emoji (animated flag, id, optional name) or a Unicode one.\<close>

datatype reaction = Custom bool u64 "string option" | Unicode string

record config =
  trigger_word :: string
  admins :: "user_id list"
  blacklisted_channels :: "channel_id list"
  pin_channel :: channel_id
  threshold :: u64
  tater_emoji :: reaction

record handler =
  config :: config
  taters_got :: "(user_id \<times> u64) list"
  taters_given :: "(user_id \<times> u64) list"

text \<open>
  \<open>Handler::new\<close> (called by \<open>or_insert_with\<close> at line 30) starts from the default
  configuration: no admins, an empty blacklist, the default threshold 5, the default
  trigger word and the potato emoji U+1F954 (UTF-8 F0 9F A5 94), and empty tables.
\<close>

definition potato :: string where
  "potato = map char_of [0xF0 :: nat, 0x9F, 0xA5, 0x94]"

definition default_config :: config where
  "default_config =
     \<lparr>trigger_word = ''!!'', admins = [], blacklisted_channels = [], pin_channel = 0,
      threshold = 5, tater_emoji = Unicode potato\<rparr>"

definition handler_new :: handler where
  "handler_new = \<lparr>config = default_config, taters_got = [], taters_given = []\<rparr>"

section \<open>Well-formedness\<close>

text \<open>
  Set semantics of the admin set and the blacklist (no duplicates), and at most one
  entry per user in each count table.
\<close>

definition config_wf :: "config \<Rightarrow> bool" where
  "config_wf c \<longleftrightarrow> distinct (admins c) \<and> distinct (blacklisted_channels c)"

definition handler_wf :: "handler \<Rightarrow> bool" where
  "handler_wf h \<longleftrightarrow> config_wf (config h) \<and>
     distinct (map fst (taters_got h)) \<and> distinct (map fst (taters_given h))"

section \<open>Abstract view\<close>

text \<open>
  What the configuration promises, with the iteration order forgotten: the admins and
  the blacklist as sets. A table's count for a user is 0 when the user is absent.
\<close>

record aconfig =
  a_trigger :: string
  a_admins :: "user_id set"
  a_blacklist :: "channel_id set"
  a_pin :: channel_id
  a_threshold :: u64
  a_emoji :: reaction

definition abs_config :: "config \<Rightarrow> aconfig" where
  "abs_config c =
     \<lparr>a_trigger = trigger_word c, a_admins = set (admins c),
      a_blacklist = set (blacklisted_channels c), a_pin = pin_channel c,
      a_threshold = threshold c, a_emoji = tater_emoji c\<rparr>"

definition count_of :: "(user_id \<times> u64) list \<Rightarrow> user_id \<Rightarrow> u64" where
  "count_of t u = (case map_of t u of None \<Rightarrow> 0 | Some c \<Rightarrow> c)"

section \<open>Lemmas on the HashSet model\<close>

lemma hs_insert_set [simp]: "set (snd (hs_insert x xs)) = insert x (set xs)"
  by (auto simp: hs_insert_def)

lemma hs_insert_flag [simp]: "fst (hs_insert x xs) \<longleftrightarrow> x \<notin> set xs"
  by (simp add: hs_insert_def)

lemma hs_insert_distinct [simp]: "distinct xs \<Longrightarrow> distinct (snd (hs_insert x xs))"
  by (simp add: hs_insert_def)

lemma hs_remove_set [simp]: "set (snd (hs_remove x xs)) = set xs - {x}"
  by (auto simp: hs_remove_def)

lemma hs_remove_flag [simp]: "fst (hs_remove x xs) \<longleftrightarrow> x \<in> set xs"
  by (simp add: hs_remove_def)

lemma hs_remove_distinct [simp]: "distinct xs \<Longrightarrow> distinct (snd (hs_remove x xs))"
  by (simp add: hs_remove_def)

lemma hs_insert_present: "x \<in> set xs \<Longrightarrow> hs_insert x xs = (False, xs)"
  by (simp add: hs_insert_def)

lemma hs_remove_absent: "x \<notin> set xs \<Longrightarrow> hs_remove x xs = (False, xs)"
  by (simp add: hs_remove_def)

lemma handler_new_wf: "handler_wf handler_new"
  by (simp add: handler_wf_def handler_new_def config_wf_def default_config_def)

end
