(* ===== verification/Store.thy ===== *)
theory Store
  imports Guild_State
begin

text \<open>
  The guild state store: \<open>HandlerWrapper::handlers\<close>, a map from \<open>GuildId\<close> to
  \<open>Handler\<close> behind one mutex. \<open>handle_commands\<close> takes the lock for the whole
  command (line 29) and resolves its guild's entry with
  \<open>handlers.entry(guild_id).or_insert_with(Handler::new)\<close> (line 30). Since the
  lock is held from there to the end of the function, a command is one atomic step of
  the store; the step relation over commands is in the root theory.
\<close>

type_synonym store = "guild_id \<rightharpoonup> handler"

definition store_entry :: "store \<Rightarrow> guild_id \<Rightarrow> store \<times> handler" where
  "store_entry st g =
     (case st g of
        Some h \<Rightarrow> (st, h)
      | None \<Rightarrow> (st(g \<mapsto> handler_new), handler_new))"

definition store_wf :: "store \<Rightarrow> bool" where
  "store_wf st \<longleftrightarrow> (\<forall>h \<in> ran st. handler_wf h)"

section \<open>Lemmas\<close>

lemma store_entry_lookup [simp]: "fst (store_entry st g) g = Some (snd (store_entry st g))"
  by (simp add: store_entry_def split: option.splits)

lemma store_entry_other [simp]: "g' \<noteq> g \<Longrightarrow> fst (store_entry st g) g' = st g'"
  by (simp add: store_entry_def split: option.splits)

lemma store_entry_existing: "st g = Some h \<Longrightarrow> store_entry st g = (st, h)"
  by (simp add: store_entry_def)

lemma store_entry_fresh: "st g = None \<Longrightarrow> store_entry st g = (st(g \<mapsto> handler_new), handler_new)"
  by (simp add: store_entry_def)

lemma map_upd_entry_self [simp]: "(fst (store_entry st g))(g \<mapsto> snd (store_entry st g)) = fst (store_entry st g)"
  by (rule map_upd_triv) simp

lemma store_wf_upd [intro]: "store_wf st \<Longrightarrow> handler_wf h \<Longrightarrow> store_wf (st(g \<mapsto> h))"
  by (auto simp: store_wf_def ran_def)

lemma store_wf_lookup: "store_wf st \<Longrightarrow> st g = Some h \<Longrightarrow> handler_wf h"
  by (auto simp: store_wf_def ran_def)

lemma store_entry_wf:
  assumes "store_wf st"
  shows "store_wf (fst (store_entry st g)) \<and> handler_wf (snd (store_entry st g))"
proof (cases "st g")
  case None
  with assms show ?thesis by (auto simp: store_entry_fresh handler_new_wf)
next
  case (Some h)
  with assms show ?thesis by (simp add: store_entry_existing store_wf_lookup)
qed

end
