(* ===== verification/Effects.thy ===== *)
theory Effects
  imports Store
begin

text \<open>
  The outside world of \<open>handle_commands\<close>: the incoming \<open>Message\<close>, the serenity
  context (\<open>ctx.cache\<close>, \<open>ctx.http\<close>) and the save routines of \<open>HandlerWrapper\<close>.
  Every external call is an answer of a \<open>world\<close>: a fixed oracle that says, for each
  request, whether it fails and with which text. A command is then a value of type
  \<open>'a io\<close>: given the world, the list of external requests issued, in order, and
  either the error that a \<open>?\<close> propagated (\<open>Inl\<close>) or the value (\<open>Inr\<close>). Reads
  (user and member lookups) are not logged; every message sent and every save is.
\<close>

record message =
  msg_guild :: "guild_id option"
  msg_author :: user_id
  msg_channel :: channel_id
  msg_content :: string

text \<open>
  The three ways commands.rs replies: \<open>ChannelId::say\<close>, \<open>send_message\<close> with an
  embed (title, description, footer; lines 164-172), and \<open>send_message\<close> with mentions
  suppressed (lines 399-404).
\<close>

datatype outgoing =
    Say channel_id string
  | Embed channel_id string string string
  | Say_quiet channel_id string

datatype effect =
    Send outgoing
  | Save_taters guild_id "(user_id \<times> u64) list" "(user_id \<times> u64) list"
  | Save_config guild_id config

record world =
  cache_guild :: "guild_id \<Rightarrow> bool"
  member_roles :: "guild_id \<Rightarrow> user_id \<Rightarrow> string + bool option"
  get_user :: "user_id \<Rightarrow> string + string"
  send_result :: "outgoing \<Rightarrow> string option"
  save_taters_result :: "guild_id \<Rightarrow> string option"
  save_config_result :: "guild_id \<Rightarrow> string option"
  parse_reaction :: "string \<Rightarrow> string + reaction"
  show_reaction :: "reaction \<Rightarrow> string"

text \<open>
  \<open>member_roles w g u\<close> is \<open>guild.member(&ctx.http, u).await?.roles(&ctx.cache)\<close>
  reduced to what line 52 asks of it: an error, \<open>None\<close> (roles not cached), or
  whether some role has the \<open>ADMINISTRATOR\<close> permission. \<open>get_user w u\<close> is
  \<open>ctx.http.get_user(u)\<close> with the user's tag; \<open>parse_reaction\<close> and
  \<open>show_reaction\<close> are serenity's \<open>ReactionType::try_from\<close> and \<open>to_string\<close>.
\<close>

section \<open>The command monad\<close>

type_synonym 'a io = "world \<Rightarrow> effect list \<times> (string + 'a)"

definition io_return :: "'a \<Rightarrow> 'a io" where
  "io_return x = (\<lambda>w. ([], Inr x))"

definition io_bind :: "'a io \<Rightarrow> ('a \<Rightarrow> 'b io) \<Rightarrow> 'b io" where
  "io_bind m f =
     (\<lambda>w. case m w of
            (es, Inl e) \<Rightarrow> (es, Inl e)
          | (es, Inr x) \<Rightarrow> (case f x w of (es', r) \<Rightarrow> (es @ es', r)))"

definition io_seq :: "unit io \<Rightarrow> 'b io \<Rightarrow> 'b io" where
  "io_seq m k = io_bind m (\<lambda>_. k)"

text \<open>A Rust \<open>try\<close> block: an error raised by \<open>?\<close> inside it becomes its value.\<close>

definition io_try :: "'a io \<Rightarrow> (string + 'a) io" where
  "io_try m = (\<lambda>w. case m w of (es, r) \<Rightarrow> (es, Inr r))"

definition send :: "outgoing \<Rightarrow> unit io" where
  "send out = (\<lambda>w. ([Send out], case send_result w out of None \<Rightarrow> Inr () | Some e \<Rightarrow> Inl e))"

definition lookup_user :: "user_id \<Rightarrow> string io" where
  "lookup_user u = (\<lambda>w. ([], get_user w u))"

definition save_taters :: "guild_id \<Rightarrow> handler \<Rightarrow> unit io" where
  "save_taters g h =
     (\<lambda>w. ([Save_taters g (taters_got h) (taters_given h)],
           case save_taters_result w g of None \<Rightarrow> Inr () | Some e \<Rightarrow> Inl e))"

definition save_config :: "guild_id \<Rightarrow> config \<Rightarrow> unit io" where
  "save_config g c =
     (\<lambda>w. ([Save_config g c], case save_config_result w g of None \<Rightarrow> Inr () | Some e \<Rightarrow> Inl e))"

section \<open>Requests that a command issues\<close>

text \<open>
  \<open>never_issues P m\<close>: in no world does \<open>m\<close> issue a request satisfying \<open>P\<close>. It is
  kept by every combinator, so a command body satisfies it by its shape once its sends
  and saves do; \<open>is_config_save\<close> picks the configuration saves.
\<close>

definition never_issues :: "(effect \<Rightarrow> bool) \<Rightarrow> 'a io \<Rightarrow> bool" where
  "never_issues P m \<longleftrightarrow> (\<forall>w. \<forall>e \<in> set (fst (m w)). \<not> P e)"

fun is_config_save :: "effect \<Rightarrow> bool" where
  "is_config_save (Save_config g c) = True"
| "is_config_save _ = False"

named_theorems never_issues_intros "closure rules of never_issues"

text \<open>
  \<open>always_sends m\<close>: in every world \<open>m\<close> sends at least one message;
  \<open>requests_le n m\<close>: in no world does \<open>m\<close> issue more than \<open>n\<close> requests.
\<close>

definition always_sends :: "'a io \<Rightarrow> bool" where
  "always_sends m \<longleftrightarrow> (\<forall>w. \<exists>out. Send out \<in> set (fst (m w)))"

definition requests_le :: "nat \<Rightarrow> 'a io \<Rightarrow> bool" where
  "requests_le n m \<longleftrightarrow> (\<forall>w. length (fst (m w)) \<le> n)"

section \<open>Monad laws\<close>

lemmas io_defs [model_defs] = io_return_def io_bind_def io_seq_def io_try_def send_def
  lookup_user_def save_taters_def save_config_def

lemma io_bind_return [simp]: "io_bind (io_return x) f = f x"
  by (rule ext) (simp add: io_return_def io_bind_def split: prod.splits)

lemma io_bind_assoc: "io_bind (io_bind m f) g = io_bind m (\<lambda>x. io_bind (f x) g)"
  by (rule ext) (simp add: io_bind_def split: prod.splits sum.splits)

text \<open>A run splits into the requests issued and the outcome.\<close>

lemma io_bind_fst:
  "fst (io_bind m f w) = fst (m w) @ (case snd (m w) of Inl e \<Rightarrow> [] | Inr x \<Rightarrow> fst (f x w))"
  by (simp add: io_bind_def split: prod.splits sum.splits)

lemma io_bind_snd:
  "snd (io_bind m f w) = (case snd (m w) of Inl e \<Rightarrow> Inl e | Inr x \<Rightarrow> snd (f x w))"
  by (simp add: io_bind_def split: prod.splits sum.splits)

lemma io_seq_fst: "fst (io_seq m k w) = fst (m w) @ (case snd (m w) of Inl e \<Rightarrow> [] | Inr x \<Rightarrow> fst (k w))"
  by (simp add: io_seq_def io_bind_fst)

lemma io_try_fst [simp]: "fst (io_try m w) = fst (m w)"
  by (simp add: io_try_def split: prod.splits)

lemma io_try_snd [simp]: "snd (io_try m w) = Inr (snd (m w))"
  by (simp add: io_try_def split: prod.splits)

lemma never_issues_return [never_issues_intros]: "never_issues P (io_return x)"
  by (simp add: never_issues_def io_return_def)

lemma never_issues_bind [never_issues_intros]:
  "never_issues P m \<Longrightarrow> (\<And>x. never_issues P (f x)) \<Longrightarrow> never_issues P (io_bind m f)"
  unfolding never_issues_def by (auto simp: io_bind_fst split: sum.splits)

lemma never_issues_seq [never_issues_intros]:
  "never_issues P m \<Longrightarrow> never_issues P k \<Longrightarrow> never_issues P (io_seq m k)"
  unfolding io_seq_def by (rule never_issues_bind)

lemma never_issues_try [never_issues_intros]: "never_issues P m \<Longrightarrow> never_issues P (io_try m)"
  by (simp add: never_issues_def)

lemma never_issues_send [never_issues_intros]: "\<not> P (Send out) \<Longrightarrow> never_issues P (send out)"
  by (simp add: never_issues_def send_def)

lemma never_issues_lookup [never_issues_intros]: "never_issues P (lookup_user u)"
  by (simp add: never_issues_def lookup_user_def)

lemma never_issues_taters [never_issues_intros]:
  "\<not> P (Save_taters g (taters_got h) (taters_given h)) \<Longrightarrow> never_issues P (save_taters g h)"
  by (simp add: never_issues_def save_taters_def)

lemma never_issues_if [never_issues_intros]:
  "never_issues P a \<Longrightarrow> never_issues P b \<Longrightarrow> never_issues P (if Q then a else b)"
  by simp

lemma never_issues_sum_case [never_issues_intros]:
  "(\<And>e. never_issues P (f e)) \<Longrightarrow> (\<And>x. never_issues P (g x)) \<Longrightarrow>
   never_issues P (case r of Inl e \<Rightarrow> f e | Inr x \<Rightarrow> g x)"
  by (cases r) simp_all

lemma never_issues_option_case [never_issues_intros]:
  "never_issues P a \<Longrightarrow> (\<And>x. never_issues P (f x)) \<Longrightarrow>
   never_issues P (case r of None \<Rightarrow> a | Some x \<Rightarrow> f x)"
  by (cases r) simp_all

lemma never_issues_filter: "never_issues P m \<Longrightarrow> filter P (fst (m w)) = []"
  by (auto simp: never_issues_def filter_empty_conv)

section \<open>Commands that always answer\<close>

lemma always_sends_send: "always_sends (send out)"
  by (auto simp: always_sends_def send_def)

lemma always_sends_seq: "always_sends m \<Longrightarrow> always_sends (io_seq m k)"
  by (auto simp: always_sends_def io_seq_fst)

lemma always_sends_try_bind: "(\<And>r. always_sends (f r)) \<Longrightarrow> always_sends (io_bind (io_try m) f)"
  by (auto simp: always_sends_def io_bind_fst)

lemma always_sends_return_bind: "always_sends (f x) \<Longrightarrow> always_sends (io_bind (io_return x) f)"
  by (simp add: io_bind_return)

lemma never_issues_no_effects: "never_issues (\<lambda>_. True) m \<Longrightarrow> fst (m w) = []"
  by (simp add: never_issues_def)

end
