(* ===== verification/Authorization.thy ===== *)
theory Authorization
  imports Effects
begin

text \<open>
  The admin check of \<open>handle_commands\<close> (src/src/handler/commands.rs, lines 43-54):
  \<open>this.config.admins.contains(&author) || match member.roles(&cache) { Some(roles) =>
  roles.iter().any(|r| r.has_permission(ADMINISTRATOR)), None => return Ok(()) }\<close>, where
  fetching the member is \<open>guild.member(&ctx.http, author).await?\<close>. The result is an
  error (the \<open>?\<close>), \<open>None\<close> (the early \<open>return Ok(())\<close>: the roles are not
  cached) or the decision. The lookup is made only when the author is not a listed
  admin, and it is made afresh for every command.
\<close>

definition is_admin :: "world \<Rightarrow> guild_id \<Rightarrow> config \<Rightarrow> user_id \<Rightarrow> string + bool option" where
  "is_admin w g c u = (if u \<in> set (admins c) then Inr (Some True) else member_roles w g u)"

lemma is_admin_listed: "u \<in> set (admins c) \<Longrightarrow> is_admin w g c u = Inr (Some True)"
  by (simp add: is_admin_def)

lemma is_admin_unlisted: "u \<notin> set (admins c) \<Longrightarrow> is_admin w g c u = member_roles w g u"
  by (simp add: is_admin_def)

end
