(* ===== verification/Leaderboard.thy ===== *)
theory Leaderboard
  imports Rust_Text "HOL-Library.Multiset"
begin

text \<open>
  The ranking and paging of the \<open>receivers\<close>/\<open>givers\<close> command
  (src/src/handler/commands.rs, lines 86-181), without its I/O: the sorted score list
  (lines 97-101), the page window (lines 103-107), the rendered line of one entry
  (lines 116-135), the asker's place (lines 138-152), the page count (line 153) and the
  footer (lines 154-162). The table is the iteration order of the \<open>HashMap\<close>.
  \<open>PAGE_SIZE * page_num\<close> and \<open>page_num + 1\<close> are \<open>usize\<close> arithmetic, kept as
  64-bit words: a release build wraps around where a debug build would panic.
\<close>

definition page_size :: usize where
  "page_size = 10"

text \<open>\<open>args.get(0).and_then(|page| page.parse().ok()).unwrap_or(0)\<close> (line 89).\<close>

definition parse_page :: "string list \<Rightarrow> usize" where
  "parse_page args = (case args of [] \<Rightarrow> 0 | a # _ \<Rightarrow> (case parse_u64 a of Inl _ \<Rightarrow> 0 | Inr n \<Rightarrow> n))"

text \<open>
  \<open>scores.sort_by_key(|(_id, count)| *count); scores.reverse();\<close> --
  \<open>sort_by_key\<close> is a stable ascending sort, which \<open>sort_key\<close> is.
\<close>

definition scores :: "(user_id \<times> u64) list \<Rightarrow> (user_id \<times> u64) list" where
  "scores m = rev (sort_key snd m)"

definition to_display :: "usize \<Rightarrow> (user_id \<times> u64) list \<Rightarrow> (nat \<times> (user_id \<times> u64)) list" where
  "to_display page sc = take (unat page_size) (drop (unat (page_size * page)) (enumerate 0 sc))"

text \<open>The medals of places 1, 2, 3 and the rest, in UTF-8.\<close>

definition medal :: "nat \<Rightarrow> string" where
  "medal p =
     (if p = 1 then map char_of [0xF0 :: nat, 0x9F, 0x8F, 0x85]
      else if p = 2 then map char_of [0xF0 :: nat, 0x9F, 0xA5, 0x88]
      else if p = 3 then map char_of [0xF0 :: nat, 0x9F, 0xA5, 0x89]
      else map char_of [0xF0 :: nat, 0x9F, 0x8E, 0x96, 0xEF, 0xB8, 0x8F])"

definition board_line :: "string \<Rightarrow> nat \<Rightarrow> user_id \<Rightarrow> u64 \<Rightarrow> string" where
  "board_line verb idx u cnt =
     medal (Suc idx) @ '' '' @ show_nat (Suc idx) @ '': '' @ mention_user u @ '' has '' @ verb @
     '' '' @ show_u64 cnt @ ''x taters'' @ newline"

definition asker_place :: "user_id \<Rightarrow> (user_id \<times> u64) list \<Rightarrow> (nat \<times> u64) option" where
  "asker_place a sc =
     map_option (\<lambda>(i, (u, s)). (Suc i, s)) (find (\<lambda>(i, (u, s)). u = a) (enumerate 0 sc))"

definition total_pages :: "nat \<Rightarrow> nat" where
  "total_pages len = len div unat page_size + 1"

definition footer :: "(nat \<times> u64) option \<Rightarrow> nat \<Rightarrow> string \<Rightarrow> usize \<Rightarrow> string" where
  "footer place len emoji page =
     (let (p, s) = (case place of Some (p, s) \<Rightarrow> (show_nat p, show_u64 s) | None \<Rightarrow> (''?'', ''?''))
      in ''Your place: #'' @ p @ ''/'' @ show_nat len @ '' with '' @ s @ ''x '' @ emoji @
         '' | Page '' @ show_u64 (page + 1) @ ''/'' @ show_nat (total_pages len))"

text \<open>
  The engine's contract of the specification, as one value: the page, the asker's place,
  the number of entries and the number of pages.
\<close>

definition leaderboard ::
  "(user_id \<times> u64) list \<Rightarrow> user_id \<Rightarrow> usize \<Rightarrow>
   (nat \<times> (user_id \<times> u64)) list \<times> (nat \<times> u64) option \<times> nat \<times> nat" where
  "leaderboard m a page =
     (let sc = scores m in (to_display page sc, asker_place a sc, length m, total_pages (length m)))"

section \<open>Lemmas\<close>

lemma mset_scores: "mset (scores m) = mset m"
  by (simp add: scores_def)

lemma scores_sorted_desc: "sorted_wrt (\<ge>) (map snd (scores m))"
  using sorted_sort_key [of snd m] by (simp add: scores_def rev_map [symmetric] sorted_wrt_rev)

text \<open>
  C30. The score list is exactly a stable sort by descending count of the table read in
  reverse iteration order: ascending \<open>sort_by_key\<close> followed by \<open>reverse\<close> is
  that sort and no other.
\<close>

theorem scores_desc_sort: "scores m = sort_key (\<lambda>x. - uint (snd x)) (rev m)"
proof (rule properties_for_sort_key [symmetric])
  show "mset (scores m) = mset (rev m)" by (simp add: mset_scores)
next
  fix k :: "user_id \<times> u64"
  have eq: "\<And>x. (- uint (snd k) = - uint (snd x)) = (snd x = snd k)"
    by (auto simp: word_uint_eq_iff)
  show "filter (\<lambda>x. - uint (snd k) = - uint (snd x)) (scores m) =
        filter (\<lambda>x. - uint (snd k) = - uint (snd x)) (rev m)"
    by (simp only: eq scores_def rev_filter [symmetric] sort_key_stable)
next
  have "sorted_wrt (\<ge>) (map snd (scores m))" by (rule scores_sorted_desc)
  then show "sorted (map (\<lambda>x. - uint (snd x)) (scores m))"
    by (simp add: sorted_map sorted_wrt_map word_le_def)
qed

lemma unat_page_skip: "unat (page_size * p) = 10 * unat p mod 18446744073709551616"
  by (simp add: page_size_def unat_mult_lem unat_word_ariths)

lemma unat_page_size: "unat page_size = 10"
  by (simp add: page_size_def)

lemma drop_enumerate: "drop k (enumerate n xs) = enumerate (n + k) (drop k xs)"
  by (cases "k \<le> length xs") (simp_all add: enumerate_eq_zip drop_zip)

lemma take_enumerate: "take k (enumerate n xs) = enumerate n (take k xs)"
  by (simp add: enumerate_eq_zip take_zip take_upt min_def)

lemma asker_place_None: "asker_place a sc = None \<longleftrightarrow> a \<notin> fst ` set sc"
  by (auto simp: asker_place_def case_prod_beta find_enumerate_None_iff)

lemma sort_key_split:
  fixes f :: "'a \<Rightarrow> 'b::linorder"
  shows "sort_key f xs =
    sort_key f (filter (\<lambda>x. f x < k) xs) @ filter (\<lambda>x. f x = k) xs @ sort_key f (filter (\<lambda>x. k < f x) xs)"
proof (rule properties_for_sort_key)
  show "mset (sort_key f (filter (\<lambda>x. f x < k) xs) @ filter (\<lambda>x. f x = k) xs @
      sort_key f (filter (\<lambda>x. k < f x) xs)) = mset xs"
    by (auto simp: multiset_eq_iff mset_filter)
next
  fix c
  show "filter (\<lambda>x. f c = f x) (sort_key f (filter (\<lambda>x. f x < k) xs) @ filter (\<lambda>x. f x = k) xs @
      sort_key f (filter (\<lambda>x. k < f x) xs)) = filter (\<lambda>x. f c = f x) xs"
  proof -
    have "filter (\<lambda>x. f x = f c) xs = filter (\<lambda>x. f x < k \<and> f x = f c) xs @
        filter (\<lambda>x. k = f x \<and> f x = f c) xs @ filter (\<lambda>x. k < f x \<and> f x = f c) xs"
    proof -
      consider "f c < k" | "f c = k" | "k < f c" by fastforce
      then show ?thesis
      proof cases
        case 1
        then have "filter (\<lambda>x. f x < k \<and> f x = f c) xs = filter (\<lambda>x. f x = f c) xs"
          by (intro filter_cong) auto
        with 1 show ?thesis by (auto simp: filter_empty_conv)
      next
        case 2
        then have "filter (\<lambda>x. k = f x \<and> f x = f c) xs = filter (\<lambda>x. f x = f c) xs"
          by (intro filter_cong) auto
        moreover have "filter (\<lambda>x. f x < k \<and> f x = f c) xs = []" "filter (\<lambda>x. k < f x \<and> f x = f c) xs = []"
          using 2 by (auto simp: filter_empty_conv)
        ultimately show ?thesis by simp
      next
        case 3
        then have "filter (\<lambda>x. k < f x \<and> f x = f c) xs = filter (\<lambda>x. f x = f c) xs"
          by (intro filter_cong) auto
        with 3 show ?thesis by (auto simp: filter_empty_conv)
      qed
    qed
    then show ?thesis
      using sort_key_stable [of f "f c"] by (simp add: filter_filter eq_commute)
  qed
next
  show "sorted (map f (sort_key f (filter (\<lambda>x. f x < k) xs) @ filter (\<lambda>x. f x = k) xs @
      sort_key f (filter (\<lambda>x. k < f x) xs)))"
  proof -
    have "sorted (map f (filter (\<lambda>x. f x = k) xs))" by (induction xs) auto
    then show ?thesis by (auto simp: sorted_append)
  qed
qed

lemma asker_place_Cons:
  "asker_place a (x # sc) = (if fst x = a then Some (1, snd x) else map_option (apfst Suc) (asker_place a sc))"
  by (cases x) (simp add: asker_place_def find_enumerate_Suc option.map_comp comp_def split_def)

lemma asker_place_append:
  "a \<notin> fst ` set xs \<Longrightarrow> asker_place a (xs @ ys) = map_option (apfst ((+) (length xs))) (asker_place a ys)"
  by (induction xs) (auto simp: asker_place_Cons option.map_comp comp_def apfst_def map_prod_def
      split_def option.map_ident)

lemma to_display_past_end:
  assumes "length sc \<le> 10 * unat p" and "10 * unat p < 18446744073709551616"
  shows "to_display p sc = []"
  using assms by (simp add: to_display_def unat_page_skip drop_enumerate)

text \<open>
  C29. The ranking is a permutation of the table, ordered by non-increasing count.
\<close>

theorem scores_sorted_permutation:
  "mset (scores m) = mset m \<and> sorted_wrt (\<ge>) (map snd (scores m))"
  using mset_scores scores_sorted_desc by blast

text \<open>
  C31. Entries with equal counts appear in the reverse of the table's iteration order:
  for every count \<open>k\<close>, the entries with count \<open>k\<close> in the ranking are those of the
  table, reversed.
\<close>

theorem scores_ties: "filter (\<lambda>x. snd x = k) (scores m) = rev (filter (\<lambda>x. snd x = k) m)"
  by (simp add: scores_def rev_filter [symmetric] sort_key_stable)

lemma asker_place_first:
  "asker_place a sc = Some (p, s) \<longleftrightarrow>
     0 < p \<and> p \<le> length sc \<and> sc ! (p - 1) = (a, s) \<and> (\<forall>j < p - 1. fst (sc ! j) \<noteq> a)"
proof -
  have "asker_place a sc = Some (p, s) \<longleftrightarrow>
      (\<exists>i. p = Suc i \<and> find (\<lambda>(i, x). fst x = a) (enumerate 0 sc) = Some (i, (a, s)))"
    by (auto simp: asker_place_def case_prod_beta find_enumerate_Some_iff)
  also have "\<dots> \<longleftrightarrow> 0 < p \<and> p \<le> length sc \<and> sc ! (p - 1) = (a, s) \<and> (\<forall>j < p - 1. fst (sc ! j) \<noteq> a)"
    by (cases p) (auto simp: find_enumerate_Some_iff)
  finally show ?thesis .
qed


text \<open>
  C33. Page \<open>p\<close> shows the entries from position \<open>10 * p\<close> taken modulo
  \<open>2^64\<close> (the wrapping \<open>usize\<close> product), at most ten of them, each with its
  0-based position in the ranking.
\<close>

theorem page_window:
  "to_display p sc =
     enumerate (10 * unat p mod 18446744073709551616)
       (take 10 (drop (10 * unat p mod 18446744073709551616) sc))"
  by (simp add: to_display_def unat_page_skip drop_enumerate take_enumerate) (simp add: page_size_def)



text \<open>
  C34. When the table has exactly \<open>10 * k\<close> entries, the page count is \<open>k + 1\<close> and
  page \<open>k\<close> (the last) is empty.
\<close>

theorem exact_multiple_pages:
  assumes "length m = 10 * k" and "10 * k < 18446744073709551616"
  shows "fst (leaderboard m a (word_of_nat k)) = [] \<and> snd (snd (snd (leaderboard m a (word_of_nat k)))) = k + 1"
proof -
  have k: "unat (word_of_nat k :: usize) = k"
    using assms(2) by (simp add: unat_of_nat)
  have "to_display (word_of_nat k) (scores m) = []"
    using assms k by (intro to_display_past_end) (simp_all add: scores_def)
  moreover have "total_pages (length m) = k + 1"
    using assms(1) by (simp add: total_pages_def page_size_def)
  ultimately show ?thesis by (simp add: leaderboard_def Let_def)
qed


theorem exact_multiple_pages_witness:
  "fst (leaderboard (map (\<lambda>i. (word_of_nat i, 1)) [0..<10]) 0 (word_of_nat 1)) = [] \<and>
   snd (snd (snd (leaderboard (map (\<lambda>i. (word_of_nat i, 1)) [0..<10]) 0 (word_of_nat 1)))) = 2"
  using exact_multiple_pages [of "map (\<lambda>i. (word_of_nat i, 1)) [0..<10]" 1 0] by simp

lemma leaderboard_of_empty: "leaderboard [] a p = ([], None, 0, 1)"
  by (simp add: leaderboard_def scores_def to_display_def asker_place_def total_pages_def)

text \<open>
  C35. On page \<open>usize::MAX\<close> the footer shows page 0: the page number is printed as
  \<open>page + 1\<close> in wrapping \<open>usize\<close> arithmetic.
\<close>

theorem footer_last_page_wraps:
  "suffix ('' | Page 0/'' @ show_nat (total_pages len)) (footer place len emoji (- 1))"
proof -
  obtain p s where ps: "(case place of Some (p, s) \<Rightarrow> (show_nat p, show_u64 s) | None \<Rightarrow> (''?'', ''?'')) = (p, s)"
    by fastforce
  have "footer place len emoji (- 1) =
      (''Your place: #'' @ p @ ''/'' @ show_nat len @ '' with '' @ s @ ''x '' @ emoji) @
      '' | Page 0/'' @ show_nat (total_pages len)"
    by (simp add: footer_def ps show_u64_def show_nat.simps [of 0] digit_char_def)
  then show ?thesis unfolding suffix_def by blast
qed

text \<open>
  C32. The asker's place as a count: when the asker's entry \<open>(a, s)\<close> sits in the table
  between \<open>pre\<close> and \<open>post\<close> and no user has two entries, the place is one more than
  the number of entries with more taters plus the number of entries tied with the asker
  that come after it in iteration order (the reversed stable sort ranks later ties first).
\<close>

theorem asker_place_rank:
  assumes m: "m = pre @ (a, s) # post" and d: "distinct (map fst m)"
  shows "asker_place a (scores m) =
    Some (Suc (length (filter (\<lambda>x. s < snd x) m) + length (filter (\<lambda>x. snd x = s) post)), s)"
proof -
  let ?G = "sort_key snd (filter (\<lambda>x. s < snd x) m)"
  let ?L = "sort_key snd (filter (\<lambda>x. snd x < s) m)"
  let ?Epre = "filter (\<lambda>x. snd x = s) pre" and ?Epost = "filter (\<lambda>x. snd x = s) post"
  have sc: "scores m = rev ?G @ rev ?Epost @ (a, s) # rev ?Epre @ rev ?L"
    unfolding scores_def using sort_key_split [of snd m s] m by simp
  have uniq: "x \<in> set m \<Longrightarrow> fst x = a \<Longrightarrow> x = (a, s)" for x
    using d m by (auto simp: image_iff)
  have "a \<notin> fst ` set (rev ?G @ rev ?Epost)"
  proof
    assume "a \<in> fst ` set (rev ?G @ rev ?Epost)"
    then obtain x where x: "fst x = a" "x \<in> set ?G \<or> x \<in> set ?Epost" by auto
    from x(2) show False
    proof
      assume "x \<in> set ?G"
      then have xm: "x \<in> set m" and gt: "s < snd x" by auto
      from uniq [OF xm x(1)] gt show False by simp
    next
      assume "x \<in> set ?Epost"
      then have "x \<in> set post" by simp
      with d m x(1) show False by (auto simp: image_iff)
    qed
  qed
  then have "asker_place a (scores m) =
      map_option (apfst ((+) (length (rev ?G @ rev ?Epost)))) (asker_place a ((a, s) # rev ?Epre @ rev ?L))"
    unfolding sc by (subst append_assoc [symmetric]) (rule asker_place_append)
  then show ?thesis by (simp add: asker_place_Cons)
qed

theorem asker_place_rank_witness:
  "asker_place 20 (scores [(10, 5), (20, 10), (30, 10)]) = Some (2, 10)"
  using asker_place_rank [of "[(10, 5), (20, 10), (30, 10)]" "[(10, 5)]" 20 10 "[(30, 10)]"] by simp

end
