(* ===== verification/Command_Arms.thy ===== *)
theory Command_Arms
  imports Authorization Leaderboard
begin

text \<open>
  The arms of the \<open>match cmd\<close> of \<open>handle_commands\<close> (src/src/handler/commands.rs,
  lines 64-405), each with its reply. The arms that change the configuration are pure
  functions from the arguments and the configuration to the new configuration and the
  reply (\<open>Ok\<close> text or \<open>Err\<close> text of the \<open>try\<close> block, \<open>cmd_set_pin_channel\<close> and
  its kin); \<open>run_set_pin_channel\<close>, \<open>run_blacklist\<close> and the others add the reply
  (\<open>config_arm\<close>). The arms that only read are \<open>io\<close> programs: the leaderboards
  (\<open>run_board\<close>), \<open>save\<close>, \<open>list_admins\<close>, \<open>help\<close> and the catch-all arm. The lemmas
  show that the configuration arms keep the configuration well formed, how many requests
  each arm issues and that it always answers, and the reply of each arm on each branch.
\<close>

section \<open>Example inputs\<close>

text \<open>
  A world in which every request succeeds, the author holds no admin role, user 5 is
  tagged \<open>u#0005\<close>, and reactions parse to themselves; a message in guild 1, channel 3,
  from user 7. The concrete instances of the theorems below run on them.
\<close>

definition demo_world :: world where
  "demo_world =
     \<lparr>cache_guild = (\<lambda>_. True), member_roles = (\<lambda>_ _. Inr (Some False)),
      get_user = (\<lambda>u. Inr (''u#000'' @ show_u64 u)), send_result = (\<lambda>_. None),
      save_taters_result = (\<lambda>_. None), save_config_result = (\<lambda>_. None),
      parse_reaction = (\<lambda>s. Inr (Unicode s)),
      show_reaction = (\<lambda>r. case r of Unicode s \<Rightarrow> s | Custom _ _ _ \<Rightarrow> ''custom'')\<rparr>"

definition demo_message :: "string \<Rightarrow> message" where
  "demo_message s = \<lparr>msg_guild = Some 1, msg_author = 7, msg_channel = 3, msg_content = s\<rparr>"

text \<open>The same world with the author an administrator, and one where every send fails.\<close>

definition demo_admin_world :: world where
  "demo_admin_world = demo_world\<lparr>member_roles := (\<lambda>_ _. Inr (Some True))\<rparr>"

definition demo_failing_world :: world where
  "demo_failing_world = demo_admin_world\<lparr>send_result := (\<lambda>_. Some ''503 Service Unavailable'')\<rparr>"

text \<open>
  A world where the member lookup and every user lookup fail, and a handler with one
  admin (user 5) who has received three taters.
\<close>

definition demo_lookup_error_world :: world where
  "demo_lookup_error_world =
     demo_world\<lparr>member_roles := (\<lambda>_ _. Inl ''Unknown Member''), get_user := (\<lambda>_. Inl ''Unknown User'')\<rparr>"

definition demo_handler :: handler where
  "demo_handler = handler_new\<lparr>config := default_config\<lparr>admins := [5]\<rparr>, taters_got := [(5, 3)]\<rparr>"

section \<open>Leaderboards\<close>

datatype board = Receivers | Givers

section \<open>Texts\<close>

definition help_text :: string where
  "help_text = join_str newline
     ['' === PotatoBoard Help ==='',
      ''- `help`: Get this message.'',
      ''- `receivers <page_number>`: See the most protatolific receivers of potatoes. `page_number` is optional.'',
      ''- `givers <page_number>`: See the most protatolific givers of potatoes. `page_number` is optional.'']"

definition admin_help_text :: string where
  "admin_help_text = join_str newline
     [''You're an admin! Here's the admin commands:'',
      ''- `set_pin_channel <channel_id>`: Set the channel that pinned messages to go, and adds it to the potato blacklist.'',
      ''- `set_potato <emoji>`: Set the given emoji to be the operative one.'',
      ''- `set_threshold <number>`: Set how many potatoes have to be on a message before it is pinned.'',
      ''- `blacklist <channel_id>`: Make the channel no longer eligible for pinning messages, regardless of potato count.'',
      ''- `unblacklist <channel_id>`: Unblacklist this channel so messages from it can be pinned again.'',
      ''- `show_blacklist`: Show which channels are ineligible for pinning messages.'',
      ''- `admin <user_id>`: Let this user access this bot's admin commands on this server.'',
      ''- `unadmin <user_id>`: Stops this user from being an admin on this server.'',
      ''- `list_admins`: Print a list of admins.'',
      ''- `save`: Flush any in-memory state to disk.'',
      ''People with any role with an Administrator privilege are always admins of this bot.'']"

text \<open>\<open>format!("An error occured: \n{}", oh_no)\<close>, the reply of every failed \<open>try\<close> block.\<close>

definition error_text :: "string \<Rightarrow> string" where
  "error_text e = ''An error occured: '' @ newline @ e"

definition reply_text :: "string + string \<Rightarrow> string" where
  "reply_text r = (case r of Inl e \<Rightarrow> error_text e | Inr t \<Rightarrow> t)"

section \<open>Arguments\<close>

text \<open>
  \<open>args.get(0).ok_or_else(|| "Not enough arguments (1 expected)")?\<close> and then
  \<open>.parse::<u64>().map_err(|e| e.to_string())?\<close>.
\<close>

definition arg0 :: "string list \<Rightarrow> string + string" where
  "arg0 args = (case args of [] \<Rightarrow> Inl ''Not enough arguments (1 expected)'' | a # _ \<Rightarrow> Inr a)"

definition parse_id_arg :: "string list \<Rightarrow> string + u64" where
  "parse_id_arg args =
     (case arg0 args of
        Inl e \<Rightarrow> Inl e
      | Inr a \<Rightarrow> (case parse_u64 a of Inl k \<Rightarrow> Inl (int_error_text k) | Inr n \<Rightarrow> Inr n))"

section \<open>The arms that change the configuration\<close>

text \<open>
  Each returns the new configuration and the value of the arm's \<open>try\<close> block. Every
  \<open>?\<close> of an arm comes before its first write, so an error leaves the configuration
  as it was.
\<close>

text \<open>\<open>set_pin_channel\<close> (lines 183-214).\<close>

definition cmd_set_pin_channel :: "string list \<Rightarrow> config \<Rightarrow> config \<times> (string + string)" where
  "cmd_set_pin_channel args c =
     (case parse_id_arg args of
        Inl e \<Rightarrow> (c, Inl e)
      | Inr ch \<Rightarrow>
          (let c1 = c\<lparr>pin_channel := ch\<rparr>;
               ins = hs_insert ch (blacklisted_channels c1);
               m = mention_channel ch
           in (c1\<lparr>blacklisted_channels := snd ins\<rparr>,
               Inr (if fst ins then ''Set pins channel to `'' @ m @ ''` and added it to the blacklist''
                    else ''Set pins channel to `'' @ m @ ''`, and it was already blacklisted''))))"

text \<open>\<open>set_threshold\<close> (lines 215-233).\<close>

definition cmd_set_threshold :: "string list \<Rightarrow> config \<Rightarrow> config \<times> (string + string)" where
  "cmd_set_threshold args c =
     (case parse_id_arg args of
        Inl e \<Rightarrow> (c, Inl e)
      | Inr n \<Rightarrow> (c\<lparr>threshold := n\<rparr>, Inr (''Threshold changed to '' @ show_u64 n)))"

text \<open>\<open>blacklist\<close> (lines 234-258).\<close>

definition cmd_blacklist :: "string list \<Rightarrow> config \<Rightarrow> config \<times> (string + string)" where
  "cmd_blacklist args c =
     (case parse_id_arg args of
        Inl e \<Rightarrow> (c, Inl e)
      | Inr ch \<Rightarrow>
          (let ins = hs_insert ch (blacklisted_channels c); m = mention_channel ch
           in (c\<lparr>blacklisted_channels := snd ins\<rparr>,
               Inr (if fst ins then ''Blacklisted `'' @ m @ ''`''
                    else ''`'' @ m @ ''` was already blacklisted''))))"

text \<open>\<open>unblacklist\<close> (lines 259-283).\<close>

definition cmd_unblacklist :: "string list \<Rightarrow> config \<Rightarrow> config \<times> (string + string)" where
  "cmd_unblacklist args c =
     (case parse_id_arg args of
        Inl e \<Rightarrow> (c, Inl e)
      | Inr ch \<Rightarrow>
          (let rem = hs_remove ch (blacklisted_channels c); m = mention_channel ch
           in (c\<lparr>blacklisted_channels := snd rem\<rparr>,
               Inr (if fst rem then ''Unblacklisted `'' @ m @ ''`''
                    else ''`'' @ m @ ''` was not blacklisted''))))"

text \<open>\<open>set_potato\<close> (lines 294-313), with serenity's \<open>ReactionType::try_from\<close> and \<open>to_string\<close> from the world.\<close>

definition cmd_set_potato :: "world \<Rightarrow> string list \<Rightarrow> config \<Rightarrow> config \<times> (string + string)" where
  "cmd_set_potato w args c =
     (case arg0 args of
        Inl e \<Rightarrow> (c, Inl e)
      | Inr a \<Rightarrow>
          (case parse_reaction w a of
             Inl e \<Rightarrow> (c, Inl e)
           | Inr r \<Rightarrow>
               (c\<lparr>tater_emoji := r\<rparr>,
                Inr (''Set potato emoji to '' @ a @ '' (from '' @ show_reaction w (tater_emoji c) @ '')''))))"

text \<open>\<open>admin\<close> (lines 314-336); a \<open>UserId\<close> displays as its number.\<close>

definition cmd_admin :: "string list \<Rightarrow> config \<Rightarrow> config \<times> (string + string)" where
  "cmd_admin args c =
     (case parse_id_arg args of
        Inl e \<Rightarrow> (c, Inl e)
      | Inr u \<Rightarrow>
          (let ins = hs_insert u (admins c)
           in (c\<lparr>admins := snd ins\<rparr>,
               Inr (if fst ins then ''Added `'' @ show_u64 u @ ''` as a new admin''
                    else ''`'' @ show_u64 u @ ''` was already an admin''))))"

text \<open>\<open>unadmin\<close> (lines 337-359).\<close>

definition cmd_unadmin :: "string list \<Rightarrow> config \<Rightarrow> config \<times> (string + string)" where
  "cmd_unadmin args c =
     (case parse_id_arg args of
        Inl e \<Rightarrow> (c, Inl e)
      | Inr u \<Rightarrow>
          (let rem = hs_remove u (admins c)
           in (c\<lparr>admins := snd rem\<rparr>,
               Inr (if fst rem then ''Removed `'' @ show_u64 u @ ''` from being an admin''
                    else ''`'' @ show_u64 u @ ''` was not an admin''))))"

text \<open>The reply of such an arm: \<open>say\<close> the text, or the error text, with \<open>?\<close> on the send.\<close>

definition config_arm :: "channel_id \<Rightarrow> handler \<Rightarrow> config \<times> (string + string) \<Rightarrow> handler \<times> unit io" where
  "config_arm ch h r = (h\<lparr>config := fst r\<rparr>, send (Say ch (reply_text (snd r))))"

section \<open>The arms that only read\<close>

text \<open>\<open>show_blacklist\<close> (lines 284-293): one line \<open>- <#id>\<close> per channel, joined by newlines.\<close>

definition show_blacklist_text :: "config \<Rightarrow> string" where
  "show_blacklist_text c = join_str newline (map (\<lambda>x. ''- '' @ mention_channel x) (blacklisted_channels c))"

text \<open>\<open>list_admins\<close> (lines 360-378): the tag of every admin, each fetched with \<open>?\<close>.\<close>

fun admins_listing :: "string \<Rightarrow> user_id list \<Rightarrow> string io" where
  "admins_listing acc [] = io_return acc"
| "admins_listing acc (u # us) =
     io_bind (lookup_user u) (\<lambda>tag. admins_listing (acc @ newline @ ''- '' @ tag) us)"

text \<open>\<open>receivers\<close>/\<open>givers\<close> (lines 86-182): one user fetch per displayed line (lines 115-136), then the embed.\<close>

fun render_board :: "string \<Rightarrow> string \<Rightarrow> (nat \<times> (user_id \<times> u64)) list \<Rightarrow> string io" where
  "render_board verb acc [] = io_return acc"
| "render_board verb acc ((i, (u, n)) # rest) =
     io_bind (lookup_user u) (\<lambda>_. render_board verb (acc @ board_line verb i u n) rest)"

definition board_verb :: "board \<Rightarrow> string" where
  "board_verb b = (case b of Receivers \<Rightarrow> ''received'' | Givers \<Rightarrow> ''given'')"

definition board_table :: "board \<Rightarrow> handler \<Rightarrow> (user_id \<times> u64) list" where
  "board_table b h = (case b of Receivers \<Rightarrow> taters_got h | Givers \<Rightarrow> taters_given h)"

definition run_board :: "world \<Rightarrow> board \<Rightarrow> handler \<Rightarrow> message \<Rightarrow> string list \<Rightarrow> unit io" where
  "run_board w b h m args =
     (let page = parse_page args;
          tbl = board_table b h;
          sc = scores tbl;
          verb = board_verb b;
          ft = footer (asker_place (msg_author m) sc) (length tbl)
                 (show_reaction w (tater_emoji (config h))) page
      in io_bind
           (io_try (io_bind (render_board verb [] (to_display page sc))
              (\<lambda>board. send (Embed (msg_channel m) (''Leaderboard - Taters '' @ verb) board ft))))
           (\<lambda>r. case r of Inl e \<Rightarrow> send (Say (msg_channel m) (error_text e)) | Inr _ \<Rightarrow> io_return ()))"

text \<open>\<open>save\<close> (lines 379-397): the taters of this guild, when the message has a guild.\<close>

definition run_save :: "handler \<Rightarrow> message \<Rightarrow> unit io" where
  "run_save h m =
     io_bind
       (case msg_guild m of
          Some g \<Rightarrow> io_try (save_taters g h)
        | None \<Rightarrow> io_return (Inl ''There was no guild ID (are you in a PM?)''))
       (\<lambda>r. send (Say (msg_channel m)
              (case r of Inl e \<Rightarrow> error_text e | Inr _ \<Rightarrow> ''Saved this server's taters!'')))"

section \<open>The arms with their replies\<close>

text \<open>
  The arms, each with its reply: \<open>help\<close> (lines 64-85), the seven configuration arms,
  whose \<open>try\<close> block is the \<open>cmd_\<close> definition and whose reply is \<open>config_arm\<close>,
  \<open>list_admins\<close> (lines 360-378) and the catch-all arm for an unknown command
  (lines 398-405), whose reply suppresses mentions.
\<close>

definition run_help :: "channel_id \<Rightarrow> bool \<Rightarrow> unit io" where
  "run_help ch adm =
     io_seq (send (Say ch help_text)) (if adm then send (Say ch admin_help_text) else io_return ())"

definition run_set_pin_channel :: "channel_id \<Rightarrow> handler \<Rightarrow> string list \<Rightarrow> handler \<times> unit io" where
  "run_set_pin_channel ch h args = config_arm ch h (cmd_set_pin_channel args (config h))"

definition run_set_threshold :: "channel_id \<Rightarrow> handler \<Rightarrow> string list \<Rightarrow> handler \<times> unit io" where
  "run_set_threshold ch h args = config_arm ch h (cmd_set_threshold args (config h))"

definition run_blacklist :: "channel_id \<Rightarrow> handler \<Rightarrow> string list \<Rightarrow> handler \<times> unit io" where
  "run_blacklist ch h args = config_arm ch h (cmd_blacklist args (config h))"

definition run_unblacklist :: "channel_id \<Rightarrow> handler \<Rightarrow> string list \<Rightarrow> handler \<times> unit io" where
  "run_unblacklist ch h args = config_arm ch h (cmd_unblacklist args (config h))"

definition run_set_potato :: "world \<Rightarrow> channel_id \<Rightarrow> handler \<Rightarrow> string list \<Rightarrow> handler \<times> unit io" where
  "run_set_potato w ch h args = config_arm ch h (cmd_set_potato w args (config h))"

definition run_admin :: "channel_id \<Rightarrow> handler \<Rightarrow> string list \<Rightarrow> handler \<times> unit io" where
  "run_admin ch h args = config_arm ch h (cmd_admin args (config h))"

definition run_unadmin :: "channel_id \<Rightarrow> handler \<Rightarrow> string list \<Rightarrow> handler \<times> unit io" where
  "run_unadmin ch h args = config_arm ch h (cmd_unadmin args (config h))"

definition run_list_admins :: "channel_id \<Rightarrow> config \<Rightarrow> unit io" where
  "run_list_admins ch c =
     io_bind (io_try (admins_listing ''Admins:'' (admins c))) (\<lambda>r. send (Say ch (reply_text r)))"

definition run_unknown :: "channel_id \<Rightarrow> string \<Rightarrow> unit io" where
  "run_unknown ch s = send (Say_quiet ch (''Unknown command: '' @ s))"

section \<open>Lemmas on the arms\<close>

lemmas arm_defs = run_help_def run_set_pin_channel_def run_set_threshold_def run_blacklist_def
  run_unblacklist_def run_set_potato_def run_admin_def run_unadmin_def run_list_admins_def run_unknown_def

lemma cmd_arms_wf:
  assumes "config_wf c"
  shows "config_wf (fst (cmd_set_pin_channel args c))" and "config_wf (fst (cmd_set_threshold args c))"
    and "config_wf (fst (cmd_blacklist args c))" and "config_wf (fst (cmd_unblacklist args c))"
    and "config_wf (fst (cmd_set_potato w args c))" and "config_wf (fst (cmd_admin args c))"
    and "config_wf (fst (cmd_unadmin args c))"
  using assms
  by (auto simp: config_wf_def cmd_set_pin_channel_def cmd_set_threshold_def cmd_blacklist_def
      cmd_unblacklist_def cmd_set_potato_def cmd_admin_def cmd_unadmin_def Let_def
      split: sum.splits)

lemma render_board_never [never_issues_intros]: "never_issues P (render_board verb acc xs)"
  by (induction verb acc xs rule: render_board.induct) (auto intro!: never_issues_intros)

lemma admins_listing_never [never_issues_intros]: "never_issues P (admins_listing acc us)"
  by (induction acc us rule: admins_listing.induct) (auto intro!: never_issues_intros)

lemma render_board_ok:
  "(\<forall>x \<in> set xs. \<exists>t. get_user w (fst (snd x)) = Inr t) \<Longrightarrow>
   render_board verb acc xs w = ([], Inr (acc @ concat (map (\<lambda>(i, u, n). board_line verb i u n) xs)))"
proof (induction verb acc xs rule: render_board.induct)
  case (1 verb acc)
  then show ?case by (simp add: io_return_def)
next
  case (2 verb acc i u n rest)
  then obtain t where "get_user w u = Inr t" by auto
  with 2 show ?case by (simp add: io_bind_def lookup_user_def)
qed

lemma render_board_error:
  "(\<forall>x \<in> set pre. \<exists>t. get_user w (fst (snd x)) = Inr t) \<Longrightarrow> get_user w u = Inl e \<Longrightarrow>
   render_board verb acc (pre @ (i, u, n) # post) w = ([], Inl e)"
proof (induction verb acc pre rule: render_board.induct)
  case (1 verb acc)
  then show ?case by (simp add: io_bind_def lookup_user_def)
next
  case (2 verb acc i' u' n' rest)
  then obtain t where "get_user w u' = Inr t" by auto
  with 2 show ?case by (simp add: io_bind_def lookup_user_def)
qed

lemma admins_listing_ok:
  "(\<forall>u \<in> set us. \<exists>t. get_user w u = Inr t) \<Longrightarrow>
   admins_listing acc us w = ([], Inr (acc @ concat (map (\<lambda>u. newline @ ''- '' @ projr (get_user w u)) us)))"
proof (induction acc us rule: admins_listing.induct)
  case (1 acc)
  then show ?case by (simp add: io_return_def)
next
  case (2 acc u us)
  then obtain t where "get_user w u = Inr t" by auto
  with 2 show ?case by (simp add: io_bind_def lookup_user_def)
qed

lemma render_board_no_effects [simp]: "fst (render_board verb acc xs w) = []"
  using render_board_never by (rule never_issues_no_effects)

lemma admins_listing_no_effects [simp]: "fst (admins_listing acc us w) = []"
  using admins_listing_never by (rule never_issues_no_effects)

lemma run_board_answers: "always_sends (run_board w0 b h m args)"
  unfolding always_sends_def
proof
  fix w
  let ?r = "render_board (board_verb b) [] (to_display (parse_page args) (scores (board_table b h)))"
  have "fst (?r w) = []" by simp
  then show "\<exists>out. Send out \<in> set (fst (run_board w0 b h m args w))"
    by (cases "snd (?r w)") (auto simp: run_board_def Let_def io_bind_fst io_bind_snd send_def)
qed

lemma run_board_requests: "requests_le 2 (run_board w0 b h m args)"
  by (auto simp: requests_le_def run_board_def Let_def io_bind_fst io_bind_snd send_def io_return_def
      split: sum.split)

lemma run_save_requests: "requests_le 2 (run_save h m)"
  by (auto simp: requests_le_def run_save_def io_bind_fst save_taters_def io_return_def send_def
      split: option.split sum.split)

lemmas demo_defs = demo_world_def demo_admin_world_def demo_failing_world_def demo_message_def
  is_admin_def store_entry_def handler_new_def default_config_def split_whitespace_def ws_len_def Let_def

text \<open>
  C11. The set commands are idempotent: repeating \<open>blacklist\<close>, \<open>unblacklist\<close>, \<open>admin\<close>
  or \<open>unadmin\<close> with the same id leaves the configuration as the first one left it and
  replies that the id already was, or was not, in the set.
\<close>

theorem set_commands_idempotent:
  assumes "parse_id_arg args = Inr x"
  shows "cmd_blacklist args (fst (cmd_blacklist args c)) =
           (fst (cmd_blacklist args c), Inr (''`'' @ mention_channel x @ ''` was already blacklisted'')) \<and>
         cmd_unblacklist args (fst (cmd_unblacklist args c)) =
           (fst (cmd_unblacklist args c), Inr (''`'' @ mention_channel x @ ''` was not blacklisted'')) \<and>
         cmd_admin args (fst (cmd_admin args c)) =
           (fst (cmd_admin args c), Inr (''`'' @ show_u64 x @ ''` was already an admin'')) \<and>
         cmd_unadmin args (fst (cmd_unadmin args c)) =
           (fst (cmd_unadmin args c), Inr (''`'' @ show_u64 x @ ''` was not an admin''))"
  using assms
  by (simp add: cmd_blacklist_def cmd_unblacklist_def cmd_admin_def cmd_unadmin_def Let_def
      hs_insert_present hs_remove_absent)

theorem set_commands_idempotent_witness:
  "cmd_blacklist [''5''] (fst (cmd_blacklist [''5''] default_config)) =
     (fst (cmd_blacklist [''5''] default_config), Inr (''`'' @ mention_channel 5 @ ''` was already blacklisted''))"
  using set_commands_idempotent [of "[''5'']" 5 default_config]
  by (simp add: parse_id_arg_def arg0_def parse_u64_def digit_val_def)

text \<open>
  C21. When every user shown on the page can be fetched, the leaderboard arm sends one embed
  titled by the board, with one line per displayed entry and the footer, and succeeds when
  the send does.
\<close>

theorem board_reply:
  assumes "\<forall>x \<in> set (to_display (parse_page args) (scores (board_table b h))). \<exists>t. get_user w (fst (snd x)) = Inr t"
    and "send_result w (Embed (msg_channel m) (''Leaderboard - Taters '' @ board_verb b)
           (concat (map (\<lambda>(i, u, n). board_line (board_verb b) i u n) (to_display (parse_page args) (scores (board_table b h)))))
           (footer (asker_place (msg_author m) (scores (board_table b h))) (length (board_table b h))
              (show_reaction w (tater_emoji (config h))) (parse_page args))) = None"
  shows "run_board w b h m args w =
    ([Send (Embed (msg_channel m) (''Leaderboard - Taters '' @ board_verb b)
       (concat (map (\<lambda>(i, u, n). board_line (board_verb b) i u n) (to_display (parse_page args) (scores (board_table b h)))))
       (footer (asker_place (msg_author m) (scores (board_table b h))) (length (board_table b h))
          (show_reaction w (tater_emoji (config h))) (parse_page args)))], Inr ())"
  using assms render_board_ok [OF assms(1), of "board_verb b" "[]"]
  by (simp add: run_board_def Let_def io_bind_def io_try_def send_def io_return_def)

theorem board_reply_witness:
  "run_board demo_world Receivers demo_handler (demo_message ''!! receivers'') [] demo_world =
     ([Send (Embed 3 ''Leaderboard - Taters received'' (board_line ''received'' 0 5 3) (footer None 1 potato 0))], Inr ())"
  using board_reply [of "[]" Receivers demo_handler demo_world "demo_message ''!! receivers''"]
  by (simp add: demo_defs demo_handler_def parse_page_def board_table_def board_verb_def scores_def
      to_display_def page_size_def asker_place_def)

text \<open>
  C22. When fetching a user on the page fails, after the earlier users succeeded, the
  leaderboard arm replies with the error text and nothing else.
\<close>

theorem board_lookup_error:
  assumes "to_display (parse_page args) (scores (board_table b h)) = pre @ (i, u, n) # post"
    and "\<forall>x \<in> set pre. \<exists>t. get_user w (fst (snd x)) = Inr t" and "get_user w u = Inl e"
  shows "run_board w b h m args w =
    ([Send (Say (msg_channel m) (error_text e))],
     case send_result w (Say (msg_channel m) (error_text e)) of None \<Rightarrow> Inr () | Some e' \<Rightarrow> Inl e')"
  using assms render_board_error [OF assms(2,3), of "board_verb b" "[]" i n post]
  by (simp add: run_board_def Let_def io_bind_def io_try_def send_def)

theorem board_lookup_error_witness:
  "run_board demo_lookup_error_world Receivers demo_handler (demo_message ''!! receivers'') [] demo_lookup_error_world =
     ([Send (Say 3 (error_text ''Unknown User''))], Inr ())"
  using board_lookup_error [of "[]" Receivers demo_handler "[]" 0 5 3 "[]" demo_lookup_error_world "''Unknown User''"
      "demo_message ''!! receivers''"]
  by (simp add: demo_defs demo_lookup_error_world_def demo_handler_def parse_page_def board_table_def
      scores_def to_display_def page_size_def)

text \<open>
  C24. In a guild, save requests the save of both count tables and then replies with the
  success text or the save's error text.
\<close>

theorem save_reply:
  assumes "msg_guild m = Some g"
  shows "run_save h m w =
    ([Save_taters g (taters_got h) (taters_given h),
      Send (Say (msg_channel m) (case save_taters_result w g of None \<Rightarrow> ''Saved this server's taters!'' | Some e \<Rightarrow> error_text e))],
     case send_result w (Say (msg_channel m) (case save_taters_result w g of None \<Rightarrow> ''Saved this server's taters!'' | Some e \<Rightarrow> error_text e)) of
       None \<Rightarrow> Inr () | Some e \<Rightarrow> Inl e)"
  using assms
  by (simp add: run_save_def io_bind_def io_try_def save_taters_def send_def split: option.splits)

theorem save_reply_witness:
  "run_save demo_handler (demo_message ''!! save'') demo_world =
     ([Save_taters 1 [(5, 3)] [], Send (Say 3 ''Saved this server's taters!'')], Inr ())"
  using save_reply [where m="demo_message ''!! save''" and g=1 and h=demo_handler and w=demo_world]
  by (simp add: demo_defs demo_handler_def)

text \<open>
  C28. \<open>set_potato\<close> on every branch: without an argument it replies that one is
  missing; when the world's reaction parser rejects the token it replies with the error;
  otherwise it sets the emoji and replies with the token and the previous emoji's text.
  The handler changes only on the last branch.
\<close>

theorem set_potato_arm:
  "run_set_potato w ch h [] = (h, send (Say ch (error_text ''Not enough arguments (1 expected)''))) \<and>
   run_set_potato w ch h (a # rest) =
     (case parse_reaction w a of
        Inl e \<Rightarrow> (h, send (Say ch (error_text e)))
      | Inr r \<Rightarrow>
          (h\<lparr>config := (config h)\<lparr>tater_emoji := r\<rparr>\<rparr>,
           send (Say ch (''Set potato emoji to '' @ a @ '' (from '' @ show_reaction w (tater_emoji (config h)) @ '')''))))"
  by (simp add: run_set_potato_def config_arm_def cmd_set_potato_def arg0_def reply_text_def split: sum.split)

end
