(* ===== verification/Commands.thy ===== *)
theory Commands
  imports Command_Arms
begin

text \<open>
  The command dispatcher \<open>handle_commands\<close> (src/src/handler/commands.rs, lines 19-429).
  The \<open>match cmd\<close> of lines 63-406 chooses an arm of Command_Arms from the command word
  and, for the admin arms, the guard \<open>if is_admin\<close>: \<open>decode_command\<close>; \<open>run_command\<close>
  is the \<open>match\<close> over the decoded command; \<open>handle_commands\<close> composes the guards of
  lines 25-61, the arm, and the configuration save of lines 408-426. The lemmas show the
  frame and invariant of dispatch, the authorization gate, the persistence obligation,
  that every dispatched command is answered and causes at most three requests, and the
  refinement of each message to an operation on the abstract configuration.
\<close>

section \<open>Command words\<close>

datatype command =
    Help
  | Board board
  | Set_pin_channel
  | Set_threshold
  | Blacklist
  | Unblacklist
  | Show_blacklist
  | Set_potato
  | Admin
  | Unadmin
  | List_admins
  | Save
  | Unknown string

definition decode_command :: "bool \<Rightarrow> string \<Rightarrow> command" where
  "decode_command adm cmd =
     (if cmd = ''help'' then Help
      else if cmd = ''receivers'' then Board Receivers
      else if cmd = ''givers'' then Board Givers
      else if cmd = ''set_pin_channel'' \<and> adm then Set_pin_channel
      else if cmd = ''set_threshold'' \<and> adm then Set_threshold
      else if cmd = ''blacklist'' \<and> adm then Blacklist
      else if cmd = ''unblacklist'' \<and> adm then Unblacklist
      else if cmd = ''show_blacklist'' \<and> adm then Show_blacklist
      else if cmd = ''set_potato'' \<and> adm then Set_potato
      else if cmd = ''admin'' \<and> adm then Admin
      else if cmd = ''unadmin'' \<and> adm then Unadmin
      else if cmd = ''list_admins'' \<and> adm then List_admins
      else if cmd = ''save'' \<and> adm then Save
      else Unknown cmd)"

definition admin_commands :: "string list" where
  "admin_commands =
     [''set_pin_channel'', ''set_threshold'', ''blacklist'', ''unblacklist'', ''show_blacklist'',
      ''set_potato'', ''admin'', ''unadmin'', ''list_admins'', ''save'']"

section \<open>Dispatch\<close>

text \<open>The \<open>match cmd\<close> of lines 63-406, on the decoded command.\<close>

definition run_command ::
  "world \<Rightarrow> bool \<Rightarrow> message \<Rightarrow> handler \<Rightarrow> command \<Rightarrow> string list \<Rightarrow> handler \<times> unit io" where
  "run_command w adm m h cmd args =
     (let ch = msg_channel m; c = config h in
      case cmd of
        Help \<Rightarrow> (h, run_help ch adm)
      | Board b \<Rightarrow> (h, run_board w b h m args)
      | Set_pin_channel \<Rightarrow> run_set_pin_channel ch h args
      | Set_threshold \<Rightarrow> run_set_threshold ch h args
      | Blacklist \<Rightarrow> run_blacklist ch h args
      | Unblacklist \<Rightarrow> run_unblacklist ch h args
      | Show_blacklist \<Rightarrow> (h, send (Say ch (show_blacklist_text c)))
      | Set_potato \<Rightarrow> run_set_potato w ch h args
      | Admin \<Rightarrow> run_admin ch h args
      | Unadmin \<Rightarrow> run_unadmin ch h args
      | List_admins \<Rightarrow> (h, run_list_admins ch c)
      | Save \<Rightarrow> (h, run_save h m)
      | Unknown s \<Rightarrow> (h, run_unknown ch s))"

text \<open>Lines 408-426: after any command of an admin, the configuration is saved.\<close>

definition final_save :: "message \<Rightarrow> handler \<Rightarrow> unit io" where
  "final_save m h =
     (case msg_guild m of
        Some g \<Rightarrow> save_config g (config h)
      | None \<Rightarrow> send (Say (msg_channel m)
                  ''Unable to save config because there was no guild ID (are you in a PM?)''))"

definition handle_commands ::
  "world \<Rightarrow> user_id \<Rightarrow> store \<Rightarrow> message \<Rightarrow> store \<times> effect list \<times> (string + unit)" where
  "handle_commands w uid st m =
     (case msg_guild m of
        None \<Rightarrow> (st, [], Inr ())
      | Some g \<Rightarrow>
          (let st1 = fst (store_entry st g); this = snd (store_entry st g) in
           if msg_author m = uid \<or> \<not> prefix (trigger_word (config this)) (msg_content m)
           then (st1, [], Inr ())
           else if \<not> cache_guild w g then (st1, [], Inr ())
           else
             (case is_admin w g (config this) (msg_author m) of
                Inl e \<Rightarrow> (st1, [], Inl e)
              | Inr None \<Rightarrow> (st1, [], Inr ())
              | Inr (Some adm) \<Rightarrow>
                  (let toks = split_whitespace (msg_content m) in
                   if length toks < 2 then (st1, [], Inr ())
                   else
                     (let r = run_command w adm m this (decode_command adm (toks ! 1)) (drop 2 toks);
                          this' = fst r
                      in (st1(g \<mapsto> this'),
                          io_seq (snd r) (if adm then final_save m this' else io_return ()) w))))))"

section \<open>Abstract operations on the configuration\<close>

text \<open>
  What the specification's command table says each configuration command does to the
  abstract configuration, and which operation a command word with its arguments denotes
  (none when an argument is missing or does not parse, or for a command that only reads).
\<close>

datatype aop =
    ASet_pin channel_id | ASet_threshold u64 | ABlacklist channel_id | AUnblacklist channel_id
  | ASet_emoji reaction | AAdmin user_id | AUnadmin user_id

fun aop_step :: "aop \<Rightarrow> aconfig \<Rightarrow> aconfig" where
  "aop_step (ASet_pin c) a = a\<lparr>a_pin := c, a_blacklist := insert c (a_blacklist a)\<rparr>"
| "aop_step (ASet_threshold n) a = a\<lparr>a_threshold := n\<rparr>"
| "aop_step (ABlacklist c) a = a\<lparr>a_blacklist := insert c (a_blacklist a)\<rparr>"
| "aop_step (AUnblacklist c) a = a\<lparr>a_blacklist := a_blacklist a - {c}\<rparr>"
| "aop_step (ASet_emoji r) a = a\<lparr>a_emoji := r\<rparr>"
| "aop_step (AAdmin u) a = a\<lparr>a_admins := insert u (a_admins a)\<rparr>"
| "aop_step (AUnadmin u) a = a\<lparr>a_admins := a_admins a - {u}\<rparr>"

definition command_op :: "world \<Rightarrow> command \<Rightarrow> string list \<Rightarrow> aop option" where
  "command_op w cmd args =
     (let by_id = (\<lambda>f. case parse_id_arg args of Inl _ \<Rightarrow> None | Inr n \<Rightarrow> Some (f n)) in
      case cmd of
        Set_pin_channel \<Rightarrow> by_id ASet_pin
      | Set_threshold \<Rightarrow> by_id ASet_threshold
      | Blacklist \<Rightarrow> by_id ABlacklist
      | Unblacklist \<Rightarrow> by_id AUnblacklist
      | Set_potato \<Rightarrow>
          (case arg0 args of
             Inl _ \<Rightarrow> None
           | Inr a \<Rightarrow> (case parse_reaction w a of Inl _ \<Rightarrow> None | Inr r \<Rightarrow> Some (ASet_emoji r)))
      | Admin \<Rightarrow> by_id AAdmin
      | Unadmin \<Rightarrow> by_id AUnadmin
      | _ \<Rightarrow> None)"

text \<open>
  The configuration a store holds for a guild (the default one for a guild not yet seen,
  as \<open>or_insert_with\<close> creates it), the operation a whole message denotes under the
  guards of \<open>handle_commands\<close>, and the effect of an optional operation.
\<close>

definition guild_config :: "store \<Rightarrow> guild_id \<Rightarrow> config" where
  "guild_config st g = config (snd (store_entry st g))"

definition message_op :: "world \<Rightarrow> user_id \<Rightarrow> store \<Rightarrow> message \<Rightarrow> aop option" where
  "message_op w uid st m =
     (case msg_guild m of
        None \<Rightarrow> None
      | Some g \<Rightarrow>
          (let c = guild_config st g; toks = split_whitespace (msg_content m) in
           if msg_author m = uid \<or> \<not> prefix (trigger_word c) (msg_content m) \<or> \<not> cache_guild w g
              \<or> length toks < 2 then None
           else
             (case is_admin w g c (msg_author m) of
                Inr (Some adm) \<Rightarrow> command_op w (decode_command adm (toks ! 1)) (drop 2 toks)
              | _ \<Rightarrow> None)))"

definition apply_op :: "aop option \<Rightarrow> aconfig \<Rightarrow> aconfig" where
  "apply_op op a = (case op of None \<Rightarrow> a | Some o' \<Rightarrow> aop_step o' a)"

text \<open>
  The guards under which \<open>handle_commands\<close> reaches an arm: a message of guild \<open>g\<close>,
  not from the bot, with the trigger as a prefix, in a cached guild, from an author the
  admin check answers with \<open>adm\<close>, and with a command word.
\<close>

definition dispatched :: "world \<Rightarrow> user_id \<Rightarrow> store \<Rightarrow> message \<Rightarrow> guild_id \<Rightarrow> bool \<Rightarrow> bool" where
  "dispatched w uid st m g adm \<longleftrightarrow>
     msg_guild m = Some g \<and> msg_author m \<noteq> uid \<and> prefix (trigger_word (guild_config st g)) (msg_content m) \<and>
     cache_guild w g \<and> is_admin w g (guild_config st g) (msg_author m) = Inr (Some adm) \<and>
     2 \<le> length (split_whitespace (msg_content m))"

text \<open>A world whose cache has the author as a member but not the author's roles.\<close>

definition demo_roles_uncached_world :: world where
  "demo_roles_uncached_world = demo_world\<lparr>member_roles := (\<lambda>_ _. Inr None)\<rparr>"

section \<open>Lemmas: frame and invariant\<close>

lemma decode_admin_word_non_admin: "s \<in> set admin_commands \<Longrightarrow> decode_command False s = Unknown s"
  by (auto simp: decode_command_def admin_commands_def)

lemma run_command_read_only:
  "cmd = Help \<or> (\<exists>b. cmd = Board b) \<or> (\<exists>t. cmd = Unknown t) \<Longrightarrow> fst (run_command w adm m h cmd args) = h"
  by (auto simp: run_command_def arm_defs Let_def)

lemma decode_non_admin_read_only:
  "decode_command False s = Help \<or> (\<exists>b. decode_command False s = Board b) \<or> (\<exists>t. decode_command False s = Unknown t)"
  by (simp add: decode_command_def)

lemma run_command_non_admin_handler: "fst (run_command w False m h (decode_command False s) args) = h"
  using decode_non_admin_read_only [of s] by (rule run_command_read_only)

lemma run_command_taters:
  "taters_got (fst (run_command w adm m h cmd args)) = taters_got h \<and>
   taters_given (fst (run_command w adm m h cmd args)) = taters_given h"
  by (cases cmd) (simp_all add: run_command_def arm_defs Let_def config_arm_def)

lemma run_command_wf: "handler_wf h \<Longrightarrow> handler_wf (fst (run_command w adm m h cmd args))"
  by (cases cmd) (simp_all add: run_command_def arm_defs Let_def config_arm_def handler_wf_def cmd_arms_wf)

lemma handle_commands_cases:
  "fst (handle_commands w uid st m) = st \<or>
   (\<exists>g. msg_guild m = Some g \<and>
     (fst (handle_commands w uid st m) = fst (store_entry st g) \<or>
      (\<exists>adm args cmd. fst (handle_commands w uid st m) =
          (fst (store_entry st g))(g \<mapsto> fst (run_command w adm m (snd (store_entry st g)) cmd args)))))"
  by (auto simp: handle_commands_def Let_def split: option.splits sum.splits if_splits)

lemma handle_commands_wf: "store_wf st \<Longrightarrow> store_wf (fst (handle_commands w uid st m))"
  using handle_commands_cases [of w uid st m] store_entry_wf [of st]
  by (auto intro!: store_wf_upd run_command_wf)

lemma run_command_no_config_save: "never_issues is_config_save (snd (run_command w adm m h cmd args))"
  by (cases cmd)
     (auto simp: run_command_def arm_defs Let_def config_arm_def run_board_def run_save_def
      intro!: never_issues_intros)

lemma handle_commands_effects:
  "fst (snd (handle_commands w uid st m)) = [] \<or>
   (\<exists>g adm cmd args. msg_guild m = Some g \<and>
      is_admin w g (config (snd (store_entry st g))) (msg_author m) = Inr (Some adm) \<and>
      fst (handle_commands w uid st m) = (fst (store_entry st g))(g \<mapsto> fst (run_command w adm m (snd (store_entry st g)) cmd args)) \<and>
      snd (handle_commands w uid st m) =
        io_seq (snd (run_command w adm m (snd (store_entry st g)) cmd args))
          (if adm then final_save m (fst (run_command w adm m (snd (store_entry st g)) cmd args)) else io_return ()) w)"
  by (auto simp: handle_commands_def Let_def split: option.splits sum.splits)

lemma handle_commands_other_guild: "msg_guild m \<noteq> Some g' \<Longrightarrow> fst (handle_commands w uid st m) g' = st g'"
  by (auto simp: handle_commands_def Let_def split: option.splits sum.splits)

lemma store_entry_local:
  "st g = st' g \<Longrightarrow> snd (store_entry st g) = snd (store_entry st' g) \<and>
     fst (store_entry st g) g = fst (store_entry st' g) g"
  by (simp add: store_entry_def split: option.splits)

lemma handle_commands_local:
  assumes "msg_guild m = Some g" and "st g = st' g"
  shows "snd (handle_commands w uid st m) = snd (handle_commands w uid st' m) \<and>
         fst (handle_commands w uid st m) g = fst (handle_commands w uid st' m) g"
  using assms store_entry_local [of st g st', OF assms(2)]
  by (simp add: handle_commands_def Let_def split: sum.splits option.splits)

lemma handle_commands_shape:
  assumes "msg_guild m = Some g"
  shows "fst (handle_commands w uid st m) = st(g := fst (handle_commands w uid st m) g)"
proof
  fix x
  show "fst (handle_commands w uid st m) x = (st(g := fst (handle_commands w uid st m) g)) x"
    using assms handle_commands_other_guild [of m x w uid st] by (cases "x = g") auto
qed

lemma run_command_abs:
  "abs_config (config (fst (run_command w adm m h cmd args))) = apply_op (command_op w cmd args) (abs_config (config h))"
  by (cases cmd)
     (auto simp: apply_op_def run_command_def arm_defs command_op_def Let_def config_arm_def abs_config_def
      cmd_set_pin_channel_def cmd_set_threshold_def cmd_blacklist_def cmd_unblacklist_def
      cmd_set_potato_def cmd_admin_def cmd_unadmin_def split: sum.splits)

lemma guild_config_eq: "st g = st' g \<Longrightarrow> guild_config st g = guild_config st' g"
  by (simp add: guild_config_def store_entry_def split: option.split)

lemma guild_config_upd [simp]: "guild_config (st(g \<mapsto> h)) g = config h"
  by (simp add: guild_config_def store_entry_def)

lemma guild_config_entry [simp]: "guild_config (fst (store_entry st g)) g = guild_config st g"
  by (simp add: guild_config_def store_entry_existing)

lemma handle_commands_store:
  assumes "msg_guild m = Some g"
  shows "fst (handle_commands w uid st m) =
    (let this = snd (store_entry st g); toks = split_whitespace (msg_content m) in
     if msg_author m = uid \<or> \<not> prefix (trigger_word (config this)) (msg_content m) \<or> \<not> cache_guild w g
        \<or> length toks < 2 then fst (store_entry st g)
     else
       (case is_admin w g (config this) (msg_author m) of
          Inr (Some adm) \<Rightarrow>
            (fst (store_entry st g))(g \<mapsto> fst (run_command w adm m this (decode_command adm (toks ! 1)) (drop 2 toks)))
        | _ \<Rightarrow> fst (store_entry st g)))"
  using assms by (simp add: handle_commands_def Let_def split: sum.split option.split)

lemma handle_commands_abs:
  "abs_config (guild_config (fst (handle_commands w uid st m)) g) =
     (if msg_guild m = Some g then apply_op (message_op w uid st m) (abs_config (guild_config st g))
      else abs_config (guild_config st g))"
proof (cases "msg_guild m = Some g")
  case True
  then show ?thesis
    by (simp add: handle_commands_store message_op_def Let_def apply_op_def run_command_abs
        guild_config_def [symmetric] split: sum.split option.split)
next
  case False
  then have "fst (handle_commands w uid st m) g = st g" by (rule handle_commands_other_guild)
  then have "guild_config (fst (handle_commands w uid st m)) g = guild_config st g" by (rule guild_config_eq)
  with False show ?thesis by simp
qed

lemma fold_apply_op: "fold aop_step (case op of None \<Rightarrow> [] | Some o' \<Rightarrow> [o']) a = apply_op op a"
  by (simp add: apply_op_def split: option.split)

lemma handle_commands_dispatched:
  assumes "dispatched w uid st m g adm"
  shows "handle_commands w uid st m =
    (let toks = split_whitespace (msg_content m);
         r = run_command w adm m (snd (store_entry st g)) (decode_command adm (toks ! 1)) (drop 2 toks)
     in ((fst (store_entry st g))(g \<mapsto> fst r), io_seq (snd r) (if adm then final_save m (fst r) else io_return ()) w))"
  using assms by (simp add: dispatched_def handle_commands_def Let_def guild_config_def)

lemma run_command_succeeds:
  "(\<forall>out. send_result w out = None) \<Longrightarrow> snd (snd (run_command w adm m h cmd args) w) = Inr ()"
  by (cases cmd)
     (auto simp: run_command_def arm_defs Let_def config_arm_def run_board_def run_save_def io_seq_def
        io_bind_snd send_def io_return_def save_taters_def split: sum.split option.split)

lemma split_help_tokens:
  "split_whitespace ''!!x help'' = [''!!x'', ''help'']" "split_whitespace ''!! help'' = [''!!'', ''help'']"
  by (simp_all add: split_whitespace_def ws_len_def)

lemma run_command_answers: "always_sends (snd (run_command w adm m h cmd args))"
  by (cases cmd)
     (auto simp: run_command_def arm_defs config_arm_def run_save_def run_board_answers Let_def
      intro!: always_sends_send always_sends_seq always_sends_try_bind always_sends_return_bind
      split: option.split)

lemma run_command_requests: "requests_le 2 (snd (run_command w adm m h cmd args))"
  using run_board_requests [of w] run_save_requests
  by (cases cmd)
     (auto simp: requests_le_def run_command_def arm_defs Let_def config_arm_def io_seq_fst io_bind_fst send_def
        io_return_def split: sum.split)

lemma final_save_requests: "requests_le 1 (final_save m h)"
  by (auto simp: requests_le_def final_save_def save_config_def send_def split: option.split)

text \<open>
  C1. A sender who is not an admin (not listed and without an administrator role, or
  whose roles could not be read) never changes the state of any guild: whatever the
  command, the store after the call is the store with the guild's entry resolved.
\<close>

theorem handle_commands_non_admin:
  assumes "msg_guild m = Some g"
    and "is_admin w g (config (snd (store_entry st g))) (msg_author m) \<noteq> Inr (Some True)"
  shows "fst (handle_commands w uid st m) = fst (store_entry st g)"
proof -
  have upd: "(fst (store_entry st g))(g \<mapsto> snd (store_entry st g)) = fst (store_entry st g)"
    by (rule map_upd_triv) simp
  show ?thesis
    using assms upd
    by (auto simp: handle_commands_def Let_def run_command_non_admin_handler
        split: option.splits sum.splits)
qed

theorem handle_commands_non_admin_witness:
  "fst (handle_commands demo_world 0 Map.empty (demo_message ''!! blacklist 5'')) =
   fst (store_entry Map.empty 1)"
  using handle_commands_non_admin [of "demo_message ''!! blacklist 5''" 1 demo_world Map.empty 0]
  by (simp add: demo_world_def demo_message_def is_admin_def store_entry_def handler_new_def
      default_config_def)

text \<open>
  C2. When a sender who is not an admin gives an admin command word, the dispatcher does
  exactly what it does for an unknown word: the state stays as it was, the only request
  is the reply \<open>Unknown command: <word>\<close> with mentions suppressed, and no
  configuration is saved.
\<close>

theorem non_admin_admin_word:
  assumes "msg_guild m = Some g" and "msg_author m \<noteq> uid"
    and "prefix (trigger_word (config (snd (store_entry st g)))) (msg_content m)"
    and "cache_guild w g"
    and "is_admin w g (config (snd (store_entry st g))) (msg_author m) = Inr (Some False)"
    and "split_whitespace (msg_content m) = t # s # rest" and "s \<in> set admin_commands"
  shows "handle_commands w uid st m =
    (fst (store_entry st g), [Send (Say_quiet (msg_channel m) (''Unknown command: '' @ s))],
     case send_result w (Say_quiet (msg_channel m) (''Unknown command: '' @ s)) of
       None \<Rightarrow> Inr () | Some e \<Rightarrow> Inl e)"
proof -
  have upd: "(fst (store_entry st g))(g \<mapsto> snd (store_entry st g)) = fst (store_entry st g)"
    by (rule map_upd_triv) simp
  show ?thesis
    using assms upd
    by (simp add: handle_commands_def Let_def decode_admin_word_non_admin run_command_def arm_defs
        io_seq_def io_bind_def io_return_def send_def split: option.splits)
qed

theorem non_admin_admin_word_witness:
  "handle_commands demo_world 0 Map.empty (demo_message ''!! set_threshold 9'') =
    (fst (store_entry Map.empty 1), [Send (Say_quiet 3 ''Unknown command: set_threshold'')], Inr ())"
  using non_admin_admin_word [of "demo_message ''!! set_threshold 9''" 1 0 Map.empty demo_world
      "''!!''" "''set_threshold''" "[''9'']"]
  by (simp add: demo_world_def demo_message_def is_admin_def store_entry_def handler_new_def
      default_config_def split_whitespace_def ws_len_def admin_commands_def)

text \<open>
  C4. A command issues at most one configuration save, and only when the sender is an admin
  of the message's guild; what it saves is the configuration the store holds afterwards.
\<close>

theorem config_save_obligation:
  "length (filter is_config_save (fst (snd (handle_commands w uid st m)))) \<le> 1 \<and>
   (\<forall>g c. Save_config g c \<in> set (fst (snd (handle_commands w uid st m))) \<longrightarrow>
      msg_guild m = Some g \<and>
      is_admin w g (config (snd (store_entry st g))) (msg_author m) = Inr (Some True) \<and>
      (\<exists>h. fst (handle_commands w uid st m) g = Some h \<and> config h = c))"
  using handle_commands_effects [of w uid st m]
proof
  assume "fst (snd (handle_commands w uid st m)) = []"
  then show ?thesis by simp
next
  assume "\<exists>g adm cmd args. msg_guild m = Some g \<and>
      is_admin w g (config (snd (store_entry st g))) (msg_author m) = Inr (Some adm) \<and>
      fst (handle_commands w uid st m) = (fst (store_entry st g))(g \<mapsto> fst (run_command w adm m (snd (store_entry st g)) cmd args)) \<and>
      snd (handle_commands w uid st m) =
        io_seq (snd (run_command w adm m (snd (store_entry st g)) cmd args))
          (if adm then final_save m (fst (run_command w adm m (snd (store_entry st g)) cmd args)) else io_return ()) w"
  then obtain g adm cmd args where g: "msg_guild m = Some g"
    and adm: "is_admin w g (config (snd (store_entry st g))) (msg_author m) = Inr (Some adm)"
    and st': "fst (handle_commands w uid st m) = (fst (store_entry st g))(g \<mapsto> fst (run_command w adm m (snd (store_entry st g)) cmd args))"
    and es: "snd (handle_commands w uid st m) =
        io_seq (snd (run_command w adm m (snd (store_entry st g)) cmd args))
          (if adm then final_save m (fst (run_command w adm m (snd (store_entry st g)) cmd args)) else io_return ()) w"
    by blast
  let ?r = "run_command w adm m (snd (store_entry st g)) cmd args"
  have body: "filter is_config_save (fst (snd ?r w)) = []"
    by (rule never_issues_filter [OF run_command_no_config_save])
  then have nobody: "\<And>g' c. Save_config g' c \<notin> set (fst (snd ?r w))"
    by (metis filter_empty_conv is_config_save.simps(1))
  have tail: "fst ((if adm then final_save m (fst ?r) else io_return ()) w) =
      (if adm then [Save_config g (config (fst ?r))] else [])"
    by (simp add: final_save_def g save_config_def io_return_def)
  show ?thesis
    using es st' g adm body nobody tail
    by (auto simp: io_seq_fst split: sum.splits)
qed

theorem config_save_obligation_witness:
  "length (filter is_config_save (fst (snd (handle_commands demo_admin_world 0 Map.empty (demo_message ''!! help''))))) = 1 \<and>
   Save_config 1 default_config \<in> set (fst (snd (handle_commands demo_admin_world 0 Map.empty (demo_message ''!! help'')))) \<and>
   msg_guild (demo_message ''!! help'') = Some 1"
proof -
  have run: "fst (snd (handle_commands demo_admin_world 0 Map.empty (demo_message ''!! help''))) =
      [Send (Say 3 help_text), Send (Say 3 admin_help_text), Save_config 1 default_config]"
    by (simp add: demo_defs handle_commands_def decode_command_def run_command_def arm_defs final_save_def
        io_seq_def io_bind_def io_return_def send_def save_config_def)
  have "msg_guild (demo_message ''!! help'') = Some 1" by (simp add: demo_message_def)
  with run config_save_obligation [of demo_admin_world 0 Map.empty "demo_message ''!! help''"]
  show ?thesis by simp
qed

text \<open>
  C10. After \<open>set_pin_channel c\<close> with a valid id, the pin channel is \<open>c\<close> and \<open>c\<close> is
  blacklisted, whether or not it was before.
\<close>

theorem set_pin_channel_blacklists:
  assumes "parse_id_arg args = Inr ch"
  shows "pin_channel (config (fst (run_command w adm m h Set_pin_channel args))) = ch \<and>
         ch \<in> set (blacklisted_channels (config (fst (run_command w adm m h Set_pin_channel args))))"
  using assms
  by (simp add: run_command_def arm_defs config_arm_def cmd_set_pin_channel_def Let_def)

theorem set_pin_channel_blacklists_witness:
  "pin_channel (config (fst (run_command demo_admin_world True (demo_message ''!! set_pin_channel 42'') handler_new Set_pin_channel [''42'']))) = 42 \<and>
   42 \<in> set (blacklisted_channels (config (fst (run_command demo_admin_world True (demo_message ''!! set_pin_channel 42'') handler_new Set_pin_channel [''42'']))))"
  using set_pin_channel_blacklists [of "[''42'']" 42 demo_admin_world True "demo_message ''!! set_pin_channel 42''" handler_new]
  by (simp add: parse_id_arg_def arg0_def parse_u64_def digit_val_def)

text \<open>
  C12. A configuration command whose id argument is missing or does not parse changes
  nothing and replies with the error text.
\<close>

theorem bad_argument_no_change:
  assumes "cmd \<in> {Set_pin_channel, Set_threshold, Blacklist, Unblacklist, Admin, Unadmin}"
    and "parse_id_arg args = Inl e"
  shows "run_command w adm m h cmd args = (h, send (Say (msg_channel m) (error_text e)))"
  using assms
  by (auto simp: run_command_def arm_defs config_arm_def reply_text_def Let_def
      cmd_set_pin_channel_def cmd_set_threshold_def cmd_blacklist_def cmd_unblacklist_def
      cmd_admin_def cmd_unadmin_def)

theorem bad_argument_no_change_witness:
  "run_command demo_world True (demo_message ''!! set_threshold abc'') handler_new Set_threshold [''abc''] =
     (handler_new, send (Say 3 (error_text ''invalid digit found in string'')))"
  using bad_argument_no_change [of Set_threshold "[''abc'']" "''invalid digit found in string''"
      demo_world True "demo_message ''!! set_threshold abc''" handler_new]
  by (simp add: parse_id_arg_def arg0_def parse_u64_def digit_val_def demo_message_def)

text \<open>
  C13. An admin's \<open>set_threshold\<close> with a non-numeric argument leaves the state as it was,
  replies with the parse error, and still requests a save of the (unchanged) configuration.
\<close>

theorem admin_bad_argument_saves_config:
  assumes "msg_guild m = Some g" and "msg_author m \<noteq> uid"
    and "prefix (trigger_word (config (snd (store_entry st g)))) (msg_content m)"
    and "cache_guild w g"
    and "is_admin w g (config (snd (store_entry st g))) (msg_author m) = Inr (Some True)"
    and "split_whitespace (msg_content m) = t # ''set_threshold'' # a # rest"
    and "parse_u64 a = Inl k"
    and "send_result w (Say (msg_channel m) (error_text (int_error_text k))) = None"
  shows "handle_commands w uid st m =
    (fst (store_entry st g),
     [Send (Say (msg_channel m) (error_text (int_error_text k))), Save_config g (config (snd (store_entry st g)))],
     case save_config_result w g of None \<Rightarrow> Inr () | Some e \<Rightarrow> Inl e)"
  using assms
  by (simp add: handle_commands_def Let_def decode_command_def run_command_def arm_defs config_arm_def
      cmd_set_threshold_def parse_id_arg_def arg0_def reply_text_def final_save_def
      io_seq_def io_bind_def send_def save_config_def split: option.splits)

theorem admin_bad_argument_saves_config_witness:
  "handle_commands demo_admin_world 0 Map.empty (demo_message ''!! set_threshold abc'') =
     ([1 \<mapsto> handler_new], [Send (Say 3 (error_text ''invalid digit found in string'')), Save_config 1 default_config], Inr ())"
  using admin_bad_argument_saves_config [of "demo_message ''!! set_threshold abc''" 1 0 Map.empty
      demo_admin_world "''!!''" "''abc''" "[]" InvalidDigit]
  by (simp add: demo_defs parse_u64_def digit_val_def)

text \<open>
  C14. When the reply to an admin's successful \<open>set_threshold\<close> cannot be sent, the new
  threshold stays in memory but the handler returns the send error before the
  configuration save: no save is requested.
\<close>

theorem failed_reply_skips_save:
  assumes "msg_guild m = Some g" and "msg_author m \<noteq> uid"
    and "prefix (trigger_word (config (snd (store_entry st g)))) (msg_content m)"
    and "cache_guild w g"
    and "is_admin w g (config (snd (store_entry st g))) (msg_author m) = Inr (Some True)"
    and "split_whitespace (msg_content m) = t # ''set_threshold'' # a # rest"
    and "parse_u64 a = Inr n"
    and "send_result w (Say (msg_channel m) (''Threshold changed to '' @ show_u64 n)) = Some e"
  shows "map_option (threshold \<circ> config) (fst (handle_commands w uid st m) g) = Some n \<and>
         snd (handle_commands w uid st m) = ([Send (Say (msg_channel m) (''Threshold changed to '' @ show_u64 n))], Inl e)"
  using assms
  by (simp add: handle_commands_def Let_def decode_command_def run_command_def arm_defs config_arm_def
      cmd_set_threshold_def parse_id_arg_def arg0_def reply_text_def
      io_seq_def io_bind_def send_def)

theorem failed_reply_skips_save_witness:
  "map_option (threshold \<circ> config) (fst (handle_commands demo_failing_world 0 Map.empty (demo_message ''!! set_threshold 9'')) 1) = Some 9 \<and>
   snd (handle_commands demo_failing_world 0 Map.empty (demo_message ''!! set_threshold 9'')) =
     ([Send (Say 3 (''Threshold changed to '' @ show_u64 9))], Inl ''503 Service Unavailable'')"
  using failed_reply_skips_save [of "demo_message ''!! set_threshold 9''" 1 0 Map.empty
      demo_failing_world "''!!''" "''9''" "[]" 9 "''503 Service Unavailable''"]
  by (simp add: demo_defs parse_u64_def digit_val_def)

text \<open>
  C15. Commands never change the count tables: every handler in the store afterwards has the
  tables it had before, or empty ones if it was created by the command.
\<close>

theorem commands_keep_counts:
  assumes "fst (handle_commands w uid st m) g' = Some h'"
  shows "taters_got h' = (case st g' of Some h \<Rightarrow> taters_got h | None \<Rightarrow> []) \<and>
         taters_given h' = (case st g' of Some h \<Rightarrow> taters_given h | None \<Rightarrow> [])"
proof -
  have entry: "\<And>g h. fst (store_entry st g) g' = Some h \<Longrightarrow>
      taters_got h = (case st g' of Some h \<Rightarrow> taters_got h | None \<Rightarrow> []) \<and>
      taters_given h = (case st g' of Some h \<Rightarrow> taters_given h | None \<Rightarrow> [])"
    by (auto simp: store_entry_def handler_new_def split: option.splits if_splits)
  have own: "\<And>g. snd (store_entry st g) = the (fst (store_entry st g) g)" by simp
  from handle_commands_cases [of w uid st m] show ?thesis
  proof (elim disjE exE conjE)
    assume "fst (handle_commands w uid st m) = st"
    with assms show ?thesis by simp
  next
    fix g
    assume "fst (handle_commands w uid st m) = fst (store_entry st g)"
    with assms entry show ?thesis by simp
  next
    fix g adm args cmd
    assume eq: "fst (handle_commands w uid st m) =
      (fst (store_entry st g))(g \<mapsto> fst (run_command w adm m (snd (store_entry st g)) cmd args))"
    show ?thesis
    proof (cases "g' = g")
      case True
      with assms eq have "h' = fst (run_command w adm m (snd (store_entry st g)) cmd args)" by simp
      then show ?thesis using entry [of g "snd (store_entry st g)"] True run_command_taters by simp
    next
      case False
      with assms eq entry show ?thesis by simp
    qed
  qed
qed

theorem commands_keep_counts_witness:
  "fst (handle_commands demo_admin_world 0 Map.empty (demo_message ''!! blacklist 5'')) 1 =
     Some (handler_new\<lparr>config := default_config\<lparr>blacklisted_channels := [5]\<rparr>\<rparr>) \<and>
   taters_got (handler_new\<lparr>config := default_config\<lparr>blacklisted_channels := [5]\<rparr>\<rparr>) = []"
proof -
  have run: "fst (handle_commands demo_admin_world 0 Map.empty (demo_message ''!! blacklist 5'')) 1 =
      Some (handler_new\<lparr>config := default_config\<lparr>blacklisted_channels := [5]\<rparr>\<rparr>)"
    by (simp add: demo_defs handle_commands_def decode_command_def run_command_def arm_defs config_arm_def
        cmd_blacklist_def parse_id_arg_def arg0_def parse_u64_def digit_val_def hs_insert_def)
  from commands_keep_counts [OF run] run show ?thesis by simp
qed

text \<open>
  C16. Commands of two different guilds commute: running them in either order gives the
  same store, and each produces the same requests and outcome as it does alone. In
  particular a command changes no guild other than the message's own.
\<close>

theorem commands_commute:
  assumes "msg_guild m1 = Some g1" and "msg_guild m2 = Some g2" and "g1 \<noteq> g2"
  shows "fst (handle_commands w uid (fst (handle_commands w uid st m1)) m2) =
           fst (handle_commands w uid (fst (handle_commands w uid st m2)) m1) \<and>
         snd (handle_commands w uid (fst (handle_commands w uid st m1)) m2) = snd (handle_commands w uid st m2) \<and>
         snd (handle_commands w uid (fst (handle_commands w uid st m2)) m1) = snd (handle_commands w uid st m1)"
proof -
  let ?s1 = "fst (handle_commands w uid st m1)" and ?s2 = "fst (handle_commands w uid st m2)"
  have s1g2: "?s1 g2 = st g2" using assms handle_commands_other_guild [of m1 g2] by simp
  have s2g1: "?s2 g1 = st g1" using assms handle_commands_other_guild [of m2 g1] by simp
  have l2: "snd (handle_commands w uid ?s1 m2) = snd (handle_commands w uid st m2) \<and>
      fst (handle_commands w uid ?s1 m2) g2 = ?s2 g2"
    using handle_commands_local [of m2 g2 ?s1 st w uid] assms(2) s1g2 by blast
  have l1: "snd (handle_commands w uid ?s2 m1) = snd (handle_commands w uid st m1) \<and>
      fst (handle_commands w uid ?s2 m1) g1 = ?s1 g1"
    using handle_commands_local [of m1 g1 ?s2 st w uid] assms(1) s2g1 by blast
  have "fst (handle_commands w uid ?s1 m2) = ?s1(g2 := ?s2 g2)"
    using handle_commands_shape [OF assms(2), of w uid ?s1] l2 by simp
  also have "\<dots> = (st(g1 := ?s1 g1))(g2 := ?s2 g2)"
    using handle_commands_shape [OF assms(1), of w uid st] by simp
  also have "\<dots> = (st(g2 := ?s2 g2))(g1 := ?s1 g1)"
    using assms(3) by (rule fun_upd_twist)
  also have "\<dots> = ?s2(g1 := ?s1 g1)"
    using handle_commands_shape [OF assms(2), of w uid st] by simp
  also have "\<dots> = fst (handle_commands w uid ?s2 m1)"
    using handle_commands_shape [OF assms(1), of w uid ?s2] l1 by simp
  finally show ?thesis using l1 l2 by simp
qed

theorem commands_commute_witness:
  "fst (handle_commands demo_admin_world 0 (fst (handle_commands demo_admin_world 0 Map.empty (demo_message ''!! blacklist 5''))) ((demo_message ''!! admin 9'')\<lparr>msg_guild := Some 2\<rparr>)) =
   fst (handle_commands demo_admin_world 0 (fst (handle_commands demo_admin_world 0 Map.empty ((demo_message ''!! admin 9'')\<lparr>msg_guild := Some 2\<rparr>))) (demo_message ''!! blacklist 5''))"
  using commands_commute [of "demo_message ''!! blacklist 5''" 1 "(demo_message ''!! admin 9'')\<lparr>msg_guild := Some 2\<rparr>" 2 demo_admin_world 0 Map.empty]
  by (simp add: demo_message_def)

text \<open>
  C17. A message with fewer than two whitespace-separated tokens (such as the trigger glued
  to the command, \<open>!!help\<close>) is ignored: no request, no state change beyond the
  guild's entry.
\<close>

theorem single_token_ignored:
  assumes "msg_guild m = Some g" and "length (split_whitespace (msg_content m)) < 2"
  shows "fst (handle_commands w uid st m) = fst (store_entry st g) \<and> fst (snd (handle_commands w uid st m)) = []"
  using assms by (auto simp: handle_commands_def Let_def split: option.splits sum.splits)

theorem single_token_ignored_witness:
  "fst (handle_commands demo_world 0 Map.empty (demo_message ''!!help'')) = fst (store_entry Map.empty 1) \<and>
   fst (snd (handle_commands demo_world 0 Map.empty (demo_message ''!!help''))) = []"
  using single_token_ignored [of "demo_message ''!!help''" 1 demo_world 0 Map.empty]
  by (simp add: demo_message_def split_whitespace_def ws_len_def)

lemma handle_commands_no_guild: "msg_guild m = None \<Longrightarrow> handle_commands w uid st m = (st, [], Inr ())"
  by (simp add: handle_commands_def)

text \<open>
  C18. \<open>help\<close> replies with the help text, followed for an admin by the admin help
  and the configuration save; the state is unchanged.
\<close>

theorem help_replies:
  assumes "msg_guild m = Some g" and "msg_author m \<noteq> uid"
    and "prefix (trigger_word (config (snd (store_entry st g)))) (msg_content m)"
    and "cache_guild w g"
    and "is_admin w g (config (snd (store_entry st g))) (msg_author m) = Inr (Some adm)"
    and "split_whitespace (msg_content m) = t # ''help'' # rest"
    and "\<And>out. send_result w out = None" and "save_config_result w g = None"
  shows "handle_commands w uid st m =
    (fst (store_entry st g),
     Send (Say (msg_channel m) help_text) #
       (if adm then [Send (Say (msg_channel m) admin_help_text), Save_config g (config (snd (store_entry st g)))] else []),
     Inr ())"
  using assms
  by (simp add: handle_commands_def Let_def decode_command_def run_command_def arm_defs final_save_def
      io_seq_def io_bind_def io_return_def send_def save_config_def)

theorem help_replies_witness:
  "handle_commands demo_world 0 Map.empty (demo_message ''!! help'') =
     ([1 \<mapsto> handler_new], [Send (Say 3 help_text)], Inr ())"
  using help_replies [of "demo_message ''!! help''" 1 0 Map.empty demo_world False "''!!''" "[]"]
  by (simp add: demo_defs)

text \<open>
  C19. A message from the bot itself, without the trigger word as a prefix, in a guild not
  in the cache, or from an unlisted author whose member lookup succeeds but whose roles
  are not in the cache (the \<open>None => return Ok(())\<close> of line 53) is ignored: no request,
  success, and the store only gains the guild's fresh handler if it had none. (An author
  whose member lookup fails is not ignored: the error is returned, C20.)
\<close>

theorem ignored_messages:
  assumes "msg_guild m = Some g"
    and "msg_author m = uid \<or> \<not> prefix (trigger_word (config (snd (store_entry st g)))) (msg_content m) \<or>
         \<not> cache_guild w g \<or> is_admin w g (config (snd (store_entry st g))) (msg_author m) = Inr None"
  shows "handle_commands w uid st m = (fst (store_entry st g), [], Inr ())"
  using assms by (auto simp: handle_commands_def Let_def)

theorem ignored_messages_witness:
  "handle_commands demo_roles_uncached_world 0 Map.empty (demo_message ''!! help'') = ([1 \<mapsto> handler_new], [], Inr ())"
  using ignored_messages [where m="demo_message ''!! help''" and g=1 and uid=0 and w=demo_roles_uncached_world and st=Map.empty]
  by (simp add: demo_defs demo_roles_uncached_world_def is_admin_def)

text \<open>
  C20. When the member lookup of a non-listed author fails, the error is returned with no
  request at all: the author gets no reply, and no command runs.
\<close>

theorem member_lookup_error:
  assumes "msg_guild m = Some g" and "msg_author m \<noteq> uid"
    and "prefix (trigger_word (config (snd (store_entry st g)))) (msg_content m)"
    and "cache_guild w g"
    and "msg_author m \<notin> set (admins (config (snd (store_entry st g))))"
    and "member_roles w g (msg_author m) = Inl e"
  shows "handle_commands w uid st m = (fst (store_entry st g), [], Inl e)"
  using assms by (simp add: handle_commands_def Let_def is_admin_def)

theorem member_lookup_error_witness:
  "handle_commands demo_lookup_error_world 0 Map.empty (demo_message ''!! help'') =
     ([1 \<mapsto> handler_new], [], Inl ''Unknown Member'')"
  using member_lookup_error [where m="demo_message ''!! help''" and g=1 and uid=0 and st=Map.empty and w=demo_lookup_error_world and e="''Unknown Member''"]
  by (simp add: demo_defs demo_lookup_error_world_def)

text \<open>
  C23. When every admin can be fetched, list_admins sends one message listing every admin's
  tag in the admin set's order.
\<close>

theorem list_admins_reply:
  assumes "\<forall>u \<in> set (admins (config h)). \<exists>t. get_user w u = Inr t"
  shows "snd (run_command w adm m h List_admins args) w =
    ([Send (Say (msg_channel m) (''Admins:'' @ concat (map (\<lambda>u. newline @ ''- '' @ projr (get_user w u)) (admins (config h)))))],
     case send_result w (Say (msg_channel m) (''Admins:'' @ concat (map (\<lambda>u. newline @ ''- '' @ projr (get_user w u)) (admins (config h))))) of
       None \<Rightarrow> Inr () | Some e \<Rightarrow> Inl e)"
  using assms admins_listing_ok [OF assms, of "''Admins:''"]
  by (simp add: run_command_def arm_defs Let_def io_bind_def io_try_def send_def reply_text_def)

theorem list_admins_reply_witness:
  "snd (run_command demo_world True (demo_message ''!! list_admins'') demo_handler List_admins []) demo_world =
     ([Send (Say 3 (''Admins:'' @ newline @ ''- u#0005''))], Inr ())"
  using list_admins_reply [where h=demo_handler and w=demo_world and adm=True and m="demo_message ''!! list_admins''" and args="[]"]
  by (simp add: demo_defs demo_handler_def show_u64_def show_nat.simps [of 5] digit_char_def)

text \<open>
  C25. Only the prefix of the whole message is checked against the trigger word, and the
  command is the second token: with the trigger \<open>!!\<close>, the message \<open>!!x help\<close>
  does exactly what \<open>!! help\<close> does.
\<close>

theorem trigger_prefix_only:
  assumes "msg_guild m = Some g" and "trigger_word (guild_config st g) = ''!!''"
  shows "handle_commands w uid st (m\<lparr>msg_content := ''!!x help''\<rparr>) =
         handle_commands w uid st (m\<lparr>msg_content := ''!! help''\<rparr>)"
  using assms
  by (simp add: handle_commands_def guild_config_def split_help_tokens Let_def run_command_def arm_defs decode_command_def
      final_save_def split: option.split sum.split)

theorem trigger_prefix_only_witness:
  "handle_commands demo_world 0 Map.empty (demo_message ''!!x help'') =
   handle_commands demo_world 0 Map.empty (demo_message ''!! help'')"
  using trigger_prefix_only [where m="demo_message ''''" and g=1 and st=Map.empty and w=demo_world and uid=0]
  by (simp add: demo_message_def guild_config_def store_entry_def handler_new_def default_config_def)

text \<open>
  C26. Every dispatched command is answered: when a message in a cached guild from a member
  other than the bot starts with the trigger and has a command word, the requests it
  causes include at least one message to the channel, whatever the world answers
  (a failed lookup or save is reported, a failed send ends the call after the send).
\<close>

theorem dispatched_command_answered:
  assumes "dispatched w uid st m g adm"
  shows "\<exists>out. Send out \<in> set (fst (snd (handle_commands w uid st m)))"
proof -
  let ?toks = "split_whitespace (msg_content m)"
  let ?r = "run_command w adm m (snd (store_entry st g)) (decode_command adm (?toks ! 1)) (drop 2 ?toks)"
  have "fst (snd (handle_commands w uid st m)) =
      fst (io_seq (snd ?r) (if adm then final_save m (fst ?r) else io_return ()) w)"
    using handle_commands_dispatched [OF assms] by (simp add: Let_def)
  moreover have "always_sends (io_seq (snd ?r) (if adm then final_save m (fst ?r) else io_return ()))"
    by (intro always_sends_seq run_command_answers)
  ultimately show ?thesis by (simp add: always_sends_def)
qed

theorem dispatched_command_answered_witness:
  "\<exists>out. Send out \<in> set (fst (snd (handle_commands demo_world 0 Map.empty (demo_message ''!! help''))))"
  using dispatched_command_answered [where m="demo_message ''!! help''" and g=1 and uid=0 and st=Map.empty
      and w=demo_world and adm=False]
  by (simp add: dispatched_def demo_defs guild_config_def)

text \<open>
  C27. One message causes at most three requests: at most two from its arm (a reply and an
  error reply, or a save and its reply, or two help messages) and the configuration save
  of an admin.
\<close>

theorem handle_commands_requests: "length (fst (snd (handle_commands w uid st m))) \<le> 3"
proof -
  have "length (fst (io_seq (snd (run_command w adm m h cmd args)) (if adm then final_save m h' else io_return ()) w)) \<le> 3"
    for adm h cmd args h'
  proof -
    have a: "length (fst (snd (run_command w adm m h cmd args) w)) \<le> 2"
      using run_command_requests by (simp add: requests_le_def)
    have b: "length (fst (final_save m h' w)) \<le> 1"
      using final_save_requests by (simp add: requests_le_def)
    show ?thesis using a b by (auto simp: io_seq_fst io_return_def split: sum.split)
  qed
  then show ?thesis
    by (auto simp: handle_commands_def Let_def split: option.split sum.split)
qed

end
