(* ===== verification/Persistence.thy ===== *)
theory Persistence
  imports Commands
begin

text \<open>
  The PersistenceGateway of the specification (section 6): the save routines
  \<open>HandlerWrapper::save_server_config\<close> and \<open>save_server_taters\<close> of the parent module,
  outside src/, and the loading of a guild's state at startup. The disk holds, per guild,
  the last configuration and the last pair of count tables saved; a save request of
  \<open>handle_commands\<close> writes it when the world answers the save with success; loading needs
  both. The file format is not modelled. The theorems show that after every admin command
  whose replies and save succeed the disk holds the in-memory configuration (and that a
  non-admin command leaves it as it was), that \<open>save\<close> followed by a load gives back
  the guild's handler, and that a configuration save the disk refuses ends the call with
  the save's error and no reply reporting it (\<open>demo_full_disk_world\<close>).
\<close>

section \<open>The saved state\<close>

record disk =
  saved_config :: "guild_id \<rightharpoonup> config"
  saved_taters :: "guild_id \<rightharpoonup> (user_id \<times> u64) list \<times> (user_id \<times> u64) list"

definition empty_disk :: disk where
  "empty_disk = \<lparr>saved_config = Map.empty, saved_taters = Map.empty\<rparr>"

text \<open>The admin world of Command_Arms with a disk that refuses every configuration save.\<close>

definition demo_full_disk_world :: world where
  "demo_full_disk_world = demo_admin_world\<lparr>save_config_result := (\<lambda>_. Some ''No space left on device'')\<rparr>"

text \<open>One request's effect on the disk, and the requests of a call in their order.\<close>

fun persist_effect :: "world \<Rightarrow> disk \<Rightarrow> effect \<Rightarrow> disk" where
  "persist_effect w d (Save_config g c) =
     (if save_config_result w g = None then d\<lparr>saved_config := (saved_config d)(g \<mapsto> c)\<rparr> else d)"
| "persist_effect w d (Save_taters g got given) =
     (if save_taters_result w g = None then d\<lparr>saved_taters := (saved_taters d)(g \<mapsto> (got, given))\<rparr> else d)"
| "persist_effect w d (Send out) = d"

definition persist :: "world \<Rightarrow> disk \<Rightarrow> effect list \<Rightarrow> disk" where
  "persist w d es = fold (\<lambda>e d. persist_effect w d e) es d"

text \<open>\<open>load(guild_id) -> Option<GuildState>\<close>: a guild's handler when both of its files exist.\<close>

definition load_handler :: "disk \<Rightarrow> guild_id \<Rightarrow> handler option" where
  "load_handler d g =
     (case (saved_config d g, saved_taters d g) of
        (Some c, Some (got, given)) \<Rightarrow> Some \<lparr>config = c, taters_got = got, taters_given = given\<rparr>
      | _ \<Rightarrow> None)"

section \<open>Lemmas\<close>

lemma persist_append [simp]: "persist w d (es @ es') = persist w (persist w d es) es'"
  by (simp add: persist_def)

lemma persist_Cons [simp]: "persist w d (e # es) = persist w (persist_effect w d e) es"
  by (simp add: persist_def)

lemma persist_Nil [simp]: "persist w d [] = d"
  by (simp add: persist_def)

lemma persist_no_config_save:
  "\<forall>e \<in> set es. \<not> is_config_save e \<Longrightarrow> saved_config (persist w d es) = saved_config d"
proof (induction es arbitrary: d)
  case Nil
  then show ?case by simp
next
  case (Cons e es)
  then show ?case by (cases e) auto
qed

text \<open>
  C7. A failed configuration save is not reported: the final save is propagated with
  \<open>?\<close> (line 414), so when it fails after an admin command whose replies succeeded, the
  call ends with the save's error, the save being its last request and no reply to the
  channel following it.
\<close>

theorem config_save_error_unreported:
  assumes "dispatched w uid st m g True" and "\<forall>out. send_result w out = None"
    and "save_config_result w g = Some e"
  shows "snd (snd (handle_commands w uid st m)) = Inl e \<and>
    last (fst (snd (handle_commands w uid st m))) = Save_config g (config (the (fst (handle_commands w uid st m) g)))"
proof -
  let ?toks = "split_whitespace (msg_content m)"
  let ?r = "run_command w True m (snd (store_entry st g)) (decode_command True (?toks ! 1)) (drop 2 ?toks)"
  have g: "msg_guild m = Some g" using assms(1) by (simp add: dispatched_def)
  have ok: "snd (snd ?r w) = Inr ()" using assms(2) by (rule run_command_succeeds)
  show ?thesis
    using handle_commands_dispatched [OF assms(1)] ok g assms(3)
    by (simp add: Let_def io_seq_def io_bind_fst io_bind_snd final_save_def save_config_def)
qed

theorem config_save_error_unreported_witness:
  "snd (snd (handle_commands demo_full_disk_world 0 Map.empty (demo_message ''!! help''))) = Inl ''No space left on device'' \<and>
   last (fst (snd (handle_commands demo_full_disk_world 0 Map.empty (demo_message ''!! help'')))) =
     Save_config 1 (config (the (fst (handle_commands demo_full_disk_world 0 Map.empty (demo_message ''!! help'')) 1)))"
  using config_save_error_unreported [where w=demo_full_disk_world and uid=0 and st=Map.empty
      and m="demo_message ''!! help''" and g=1 and e="''No space left on device''"]
  by (simp add: dispatched_def demo_defs demo_full_disk_world_def guild_config_def)

text \<open>
  C5. The disk keeps up with the configuration: after an admin command whose replies and
  configuration save succeed, the disk holds the guild's configuration as the store has
  it after the command; after a non-admin command the saved configuration is unchanged.
\<close>

theorem persisted_config_matches:
  assumes "dispatched w uid st m g adm" and "\<forall>out. send_result w out = None"
    and "save_config_result w g = None"
  shows "saved_config (persist w d (fst (snd (handle_commands w uid st m)))) g =
    (if adm then map_option config (fst (handle_commands w uid st m) g) else saved_config d g)"
proof -
  let ?toks = "split_whitespace (msg_content m)"
  let ?r = "run_command w adm m (snd (store_entry st g)) (decode_command adm (?toks ! 1)) (drop 2 ?toks)"
  have g: "msg_guild m = Some g" using assms(1) by (simp add: dispatched_def)
  have arm: "saved_config (persist w d (fst (snd ?r w))) = saved_config d"
    using run_command_no_config_save [of w adm m "snd (store_entry st g)" "decode_command adm (?toks ! 1)" "drop 2 ?toks"]
    by (intro persist_no_config_save) (simp add: never_issues_def)
  have ok: "snd (snd ?r w) = Inr ()" using assms(2) by (rule run_command_succeeds)
  show ?thesis
  proof (cases adm)
    case True
    then show ?thesis using handle_commands_dispatched [OF assms(1)] arm ok g assms(3)
      by (simp add: Let_def io_seq_fst final_save_def save_config_def)
  next
    case False
    then show ?thesis using handle_commands_dispatched [OF assms(1)] arm ok
      by (simp add: Let_def io_seq_fst io_return_def)
  qed
qed

theorem persisted_config_matches_witness:
  "saved_config (persist demo_admin_world empty_disk
      (fst (snd (handle_commands demo_admin_world 0 Map.empty (demo_message ''!! blacklist 5''))))) 1 =
   map_option config (fst (handle_commands demo_admin_world 0 Map.empty (demo_message ''!! blacklist 5'')) 1)"
  using persisted_config_matches [where w=demo_admin_world and uid=0 and st=Map.empty
      and m="demo_message ''!! blacklist 5''" and g=1 and adm=True and d=empty_disk]
  by (simp add: dispatched_def demo_defs guild_config_def)

text \<open>
  C6. Save and load round trip: after an admin's \<open>save\<close> whose saves and replies succeed,
  loading the guild from the disk gives back its handler as the store holds it:
  configuration and both count tables.
\<close>

theorem save_load_roundtrip:
  assumes "dispatched w uid st m g True" and "split_whitespace (msg_content m) ! 1 = ''save''"
    and "\<forall>out. send_result w out = None" and "save_taters_result w g = None"
    and "save_config_result w g = None"
  shows "load_handler (persist w d (fst (snd (handle_commands w uid st m)))) g = fst (handle_commands w uid st m) g"
proof -
  have g: "msg_guild m = Some g" using assms(1) by (simp add: dispatched_def)
  show ?thesis
    using handle_commands_dispatched [OF assms(1)] g assms(2-5)
    by (simp add: Let_def decode_command_def run_command_def run_save_def io_seq_fst io_bind_fst io_bind_snd
        save_taters_def send_def final_save_def save_config_def io_return_def load_handler_def)
qed

theorem save_load_roundtrip_witness:
  "load_handler (persist demo_admin_world empty_disk
      (fst (snd (handle_commands demo_admin_world 0 [1 \<mapsto> demo_handler] (demo_message ''!! save''))))) 1 =
   Some demo_handler"
  using save_load_roundtrip [where w=demo_admin_world and uid=0 and st="[1 \<mapsto> demo_handler]"
      and m="demo_message ''!! save''" and g=1 and d=empty_disk]
  by (simp add: dispatched_def demo_defs guild_config_def demo_handler_def handle_commands_def
      decode_command_def run_command_def)

end
