(* ===== verification/Spec2Isabelle.thy ===== *)
theory Spec2Isabelle
  imports Persistence
begin

text \<open>
  \<^bold>\<open>A model of tater-board's command handler.\<close>

  The repository's source under src/ is one file, src/src/handler/commands.rs, whose
  function \<open>handle_commands\<close> is the whole command surface of the bot: it takes the
  lock of the per-guild store, resolves the guild's \<open>Handler\<close>, decides whether the
  message is a command and whether its author is an admin, runs one of thirteen arms
  (help, two leaderboards, ten admin commands, unknown), and finally saves the guild's
  configuration when the author is an admin. The parts it works with and where each is
  modelled:

  \<^item> \<^bold>\<open>Prelude\<close>: the machine types (\<open>u64\<close>, \<open>usize\<close> as 64-bit words, the ids as
    \<open>u64\<close>), the lemma collections, generic lemmas on \<open>find\<close> over \<open>enumerate\<close>.
  \<^item> \<^bold>\<open>Rust_Text\<close>: the standard library's string operations the handler calls:
    \<open>split_whitespace\<close> over UTF-8 bytes with all of Unicode's whitespace,
    \<open>parse::<u64>\<close> with its three error kinds and their texts, the decimal
    \<open>Display\<close> of integers, \<open>join\<close>, and serenity's mention formats.
  \<^item> \<^bold>\<open>Guild_State\<close>: the \<open>Handler\<close> (configuration and two count tables) and its
    \<open>Config\<close>, declared outside src/ and modelled from their use in commands.rs and the
    specification; \<open>HashSet::insert\<close>/\<open>remove\<close> on a duplicate-free list whose order
    stands for the iteration order; \<open>Handler::new\<close>; the well-formedness invariant
    (no duplicate admin, channel or user); the abstract configuration with sets.
  \<^item> \<^bold>\<open>Store\<close>: the map from guild to handler and
    \<open>entry(guild_id).or_insert_with(Handler::new)\<close> (line 30).
  \<^item> \<^bold>\<open>Effects\<close>: the message, the world (serenity's cache and HTTP client, the save
    routines of the parent module) as an oracle of answers, the requests a command
    issues, and the error-propagating monad \<open>'a io\<close> for \<open>?\<close> and \<open>try\<close> blocks.
  \<^item> \<^bold>\<open>Authorization\<close>: the admin check of lines 43-54.
  \<^item> \<^bold>\<open>Leaderboard\<close>: ranking, paging, the asker's place and the footer of the
    \<open>receivers\<close>/\<open>givers\<close> arm (lines 86-162), with the \<open>usize\<close> arithmetic kept at
    64 bits.
  \<^item> \<^bold>\<open>Command_Arms\<close>: the arms of the \<open>match cmd\<close>, one definition per arm
    with its reply (\<open>run_help\<close>, \<open>run_board\<close>, \<open>run_set_pin_channel\<close>, ...,
    \<open>run_unknown\<close>), the configuration updates they make (\<open>cmd_blacklist\<close> and its
    kin), their texts and argument parsing, and the example worlds and messages.
  \<^item> \<^bold>\<open>Commands\<close>: the decoding of the command word with the admin guards, the
    \<open>match\<close> over the decoded command (\<open>run_command\<close>), \<open>handle_commands\<close> itself, and
    the abstract configuration operations that each message denotes.
  \<^item> \<^bold>\<open>Persistence\<close>: the PersistenceGateway of the specification, modelled from
    it since the save routines live outside src/: the disk of saved configurations and
    count tables (\<open>disk\<close>), the effect of each save request as the world answers it
    (\<open>persist_effect\<close>, \<open>persist\<close>), and loading a guild at startup (\<open>load_handler\<close>).
  \<^item> this theory: the store as a state machine whose steps are commands (the global lock
    makes every call of \<open>handle_commands\<close> one atomic step), runs of messages as
    explicit sequences of steps, and the properties that span components.

  \<^bold>\<open>What is proved.\<close> In Commands and Command_Arms: the authorization gate (a non-admin never
  changes any state and an admin word from a non-admin is answered as an unknown command);
  the postcondition of \<open>set_pin_channel\<close>, the idempotence of the set commands, that a bad
  argument changes nothing, and (as helper lemmas) that each message changes its guild's
  configuration by the operation on sets (\<open>aop_step\<close>) that it denotes; the persistence obligation (at most one configuration save per
  command, only for admins, and none after a failed reply); that commands never touch the
  counts; that commands of different guilds commute and leave other guilds alone; which
  messages are ignored, and that a failed member lookup ends the call with no reply; the
  replies of \<open>help\<close>, of the leaderboards (success and a failed user lookup),
  \<open>list_admins\<close>, \<open>save\<close> and \<open>set_potato\<close> (every branch); that every dispatched command is answered (a liveness
  property over every world, via \<open>always_sends\<close> of Effects) and that one message causes at
  most three requests (via \<open>requests_le\<close>); that only the message's prefix is checked
  against the trigger. In Persistence: after an admin command whose replies and save
  succeed the disk holds the store's configuration (a non-admin command leaves it alone),
  \<open>save\<close> followed by a load gives back the guild's handler, and a failed configuration
  save ends the call with the save's error, the save being its last request, so no reply
  reports it. In this theory: the store invariant in every reachable
  state, the refinement of every run (a guild's abstract configuration is the fold of the
  operations its messages denote), and the isolation of guilds (a guild's state, and the
  requests and outcome of each of its messages, after an interleaved run are those after
  its own messages alone, \<open>guild_outputs\<close>). In Leaderboard: the ranking (a permutation sorted by count, equal to a stable
  descending sort of the reversed table, ties in reverse iteration order), the asker's
  place (the first entry with the asker's id, and as a count: one more than the entries
  with more taters and the tied entries after the asker in iteration order), the page window with the wrap-around of \<open>usize\<close>, the page count at exact
  multiples, the empty table, and the footer's page number wrapping to 0 on the last
  \<open>usize\<close> page. In Rust_Text: the round trips of integer parsing against display and of
  the tokenizer against joining, that every token is nonempty and free of whitespace, and
  that a string of n bytes has at most (n + 1) div 2 tokens. In this
  theory, the specification's scenario B end to end through \<open>handle_commands\<close>.

  \<^bold>\<open>Open points.\<close> The \<open>show_blacklist\<close> listing is proved only through its
  definition (the text of the blacklist joined by newlines), not against the set.

  \<^bold>\<open>Not modelled.\<close> The reaction handlers that increment the counts and pin
  messages and the gateway and event loop: their code is not in src/ and the
  specification leaves them to external collaborators, so nothing of them can be
  translated; only the state they share with the commands (the count tables) is here.
  Also the on-disk format of the save routines (a saved
  configuration or table is modelled as a value, written when the world answers the save
  with success), serenity's HTTP client and cache (an oracle of answers: the world), and serenity's
  own parsing of reaction strings (an oracle of the world). No fuel is needed in the model:
  every loop of the handler runs over a finite list, and the tokenizer's scan
  (\<open>split_ws_from\<close>, a \<open>function\<close>) terminates by the measure of the length of the rest
  of the string, each step dropping at least one byte.
\<close>

section \<open>The store as a state machine\<close>

text \<open>
  A store is reachable when it is the empty store of a fresh start, or the result of
  one call of \<open>handle_commands\<close> from a reachable store, in any world, for any bot
  identity and message.
\<close>

inductive reachable_store :: "store \<Rightarrow> bool" where
  empty: "reachable_store Map.empty"
| command: "reachable_store st \<Longrightarrow> reachable_store (fst (handle_commands w uid st m))"

text \<open>
  A run of the bot: the messages it receives, each with the world as it answers at that
  moment, handled one after the other (the lock taken at line 29 and held to the end serialises the calls).
  \<open>run_ops\<close> collects the configuration operations that the messages of one guild denote
  along the run.
\<close>

fun run_messages :: "user_id \<Rightarrow> store \<Rightarrow> (world \<times> message) list \<Rightarrow> store" where
  "run_messages uid st [] = st"
| "run_messages uid st ((w, m) # ms) = run_messages uid (fst (handle_commands w uid st m)) ms"

fun run_ops :: "user_id \<Rightarrow> store \<Rightarrow> guild_id \<Rightarrow> (world \<times> message) list \<Rightarrow> aop list" where
  "run_ops uid st g [] = []"
| "run_ops uid st g ((w, m) # ms) =
     (if msg_guild m = Some g then (case message_op w uid st m of None \<Rightarrow> [] | Some op \<Rightarrow> [op]) else []) @
     run_ops uid (fst (handle_commands w uid st m)) g ms"

text \<open>The outcome (requests and result) of each message of one guild along a run.\<close>

fun guild_outputs :: "user_id \<Rightarrow> store \<Rightarrow> guild_id \<Rightarrow> (world \<times> message) list \<Rightarrow> (effect list \<times> (string + unit)) list" where
  "guild_outputs uid st g [] = []"
| "guild_outputs uid st g ((w, m) # ms) =
     (if msg_guild m = Some g then [snd (handle_commands w uid st m)] else []) @
     guild_outputs uid (fst (handle_commands w uid st m)) g ms"

text \<open>
  The specification's scenario B: users 10, 20 and 30 (in this iteration order) have
  received 5, 10 and 10 taters.
\<close>

definition scenario_b_handler :: handler where
  "scenario_b_handler = handler_new\<lparr>taters_got := [(10, 5), (20, 10), (30, 10)]\<rparr>"

text \<open>
  C3. In every reachable store every guild's handler is well formed: its admin list and
  blacklist have no duplicates and each count table has one entry per user.
\<close>

theorem reachable_store_wf: "reachable_store st \<Longrightarrow> store_wf st"
proof (induction rule: reachable_store.induct)
  case empty
  show ?case by (simp add: store_wf_def)
next
  case (command st w uid m)
  from command.IH show ?case by (rule handle_commands_wf)
qed

theorem reachable_store_wf_witness:
  "reachable_store (fst (handle_commands demo_world 0 Map.empty (demo_message ''!! help''))) \<and>
   store_wf (fst (handle_commands demo_world 0 Map.empty (demo_message ''!! help'')))"
proof -
  have r: "reachable_store (fst (handle_commands demo_world 0 Map.empty (demo_message ''!! help'')))"
    by (rule reachable_store.command [OF reachable_store.empty])
  show ?thesis using r reachable_store_wf [OF r] by simp
qed

text \<open>
  C8. Along any run, the abstract configuration of a guild (admins and blacklist as
  sets) is the initial one with the operations of the guild's messages applied in
  order: every configuration command does what the command table promises, whatever the
  replies' outcome, and nothing else changes the configuration.
\<close>

theorem config_trace_refinement:
  "abs_config (guild_config (run_messages uid st ms) g) =
     fold aop_step (run_ops uid st g ms) (abs_config (guild_config st g))"
proof (induction uid st ms rule: run_messages.induct)
  case (1 uid st)
  show ?case by simp
next
  case (2 uid st w m ms)
  then show ?case by (simp add: handle_commands_abs fold_apply_op)
qed

lemma sb_scores: "scores [(10, 5), (20, 10), (30, 10)] = [(30, 10), (20, 10), (10, 5 :: u64)]"
  by (simp add: scores_def)

lemma sb_display: "to_display 0 [(30, 10), (20, 10), (10, 5)] = [(0, 30, 10), (Suc 0, 20, 10), (2, 10, 5)]"
  by (simp add: to_display_def unat_page_size)

lemma sb_place: "asker_place 20 [(30, 10), (20, 10), (10, 5)] = Some (2, 10)"
  by (simp add: asker_place_def)

lemma sb_footer: "footer (Some (2, 10)) 3 potato 0 = ''Your place: #2/3 with 10x '' @ potato @ '' | Page 1/1''"
  by (simp add: footer_def total_pages_def unat_page_size show_u64_def show_nat_digit show_nat_snoc digit_char_def)

lemma sb_render:
  "render_board ''received'' [] [(0, 30, 10), (Suc 0, 20, 10), (2, 10, 5)] demo_world =
     ([], Inr (board_line ''received'' 0 30 10 @ board_line ''received'' (Suc 0) 20 10 @ board_line ''received'' 2 10 5))"
  by (simp add: demo_world_def io_defs lookup_user_def)

text \<open>
  C36. Scenario B end to end: user 20 asking \<open>!! receivers\<close> gets one embed whose lines
  rank user 30 first, user 20 second (the tie of 10 taters in reverse iteration order) and
  user 10 third, with the footer \<open>Your place: #2/3 with 10x <potato> | Page 1/1\<close>; the
  store is unchanged and nothing is saved.
\<close>

theorem scenario_b_receivers:
  "handle_commands demo_world 0 [1 \<mapsto> scenario_b_handler] ((demo_message ''!! receivers'')\<lparr>msg_author := 20\<rparr>) =
    ([1 \<mapsto> scenario_b_handler],
     [Send (Embed 3 ''Leaderboard - Taters received''
        (board_line ''received'' 0 30 10 @ board_line ''received'' 1 20 10 @ board_line ''received'' 2 10 5)
        (''Your place: #2/3 with 10x '' @ potato @ '' | Page 1/1''))],
     Inr ())"
proof -
  have tbl: "board_table Receivers scenario_b_handler = [(10, 5), (20, 10), (30, 10)]"
    by (simp add: board_table_def scenario_b_handler_def handler_new_def)
  have emoji: "show_reaction demo_world (tater_emoji (config scenario_b_handler)) = potato"
    by (simp add: demo_world_def scenario_b_handler_def handler_new_def default_config_def)
  have ft: "footer (Some (2, 10)) (length [(10 :: user_id, 5 :: u64), (20, 10), (30, 10)]) potato 0 =
      ''Your place: #2/3 with 10x '' @ potato @ '' | Page 1/1''"
  proof -
    have "length [(10 :: user_id, 5 :: u64), (20, 10), (30, 10)] = 3" by simp
    then show ?thesis by (simp only: sb_footer)
  qed
  have run: "run_board demo_world Receivers scenario_b_handler
      \<lparr>msg_guild = Some 1, msg_author = 20, msg_channel = 3, msg_content = ''!! receivers''\<rparr> [] demo_world =
    ([Send (Embed 3 ''Leaderboard - Taters received''
        (board_line ''received'' 0 30 10 @ board_line ''received'' 1 20 10 @ board_line ''received'' 2 10 5)
        (''Your place: #2/3 with 10x '' @ potato @ '' | Page 1/1''))], Inr ())"
  proof -
    have msg: "msg_author \<lparr>msg_guild = Some 1, msg_author = 20, msg_channel = 3, msg_content = ''!! receivers''\<rparr> = 20"
      "msg_channel \<lparr>msg_guild = Some 1, msg_author = 20, msg_channel = 3, msg_content = ''!! receivers''\<rparr> = 3"
      by simp_all
    show ?thesis
      unfolding run_board_def Let_def tbl parse_page_def list.case board_verb_def board.case sb_scores
        sb_display emoji msg sb_place ft
      by (simp add: sb_render io_defs del: render_board.simps) (simp add: demo_world_def)
  qed
  have w: "cache_guild demo_world 1" "member_roles demo_world 1 20 = Inr (Some False)"
    by (simp_all add: demo_world_def)
  have cfg: "config scenario_b_handler = default_config"
    by (simp add: scenario_b_handler_def handler_new_def)
  show ?thesis
    by (simp add: handle_commands_def demo_message_def store_entry_def cfg default_config_def is_admin_def w
        split_whitespace_def ws_len_def Let_def decode_command_def run_command_def arm_defs run io_defs)
qed

lemma run_messages_local:
  "\<forall>(w, m) \<in> set ms. msg_guild m = Some g \<Longrightarrow> st g = st' g \<Longrightarrow>
   run_messages uid st ms g = run_messages uid st' ms g \<and> guild_outputs uid st g ms = guild_outputs uid st' g ms"
proof (induction ms arbitrary: st st')
  case Nil
  then show ?case by simp
next
  case (Cons wm ms)
  obtain w m where wm: "wm = (w, m)" by fastforce
  with Cons.prems have g: "msg_guild m = Some g" by auto
  have loc: "snd (handle_commands w uid st m) = snd (handle_commands w uid st' m) \<and>
      fst (handle_commands w uid st m) g = fst (handle_commands w uid st' m) g"
    using handle_commands_local [of m g st st' w uid] g Cons.prems(2) by blast
  have "\<forall>(w, m) \<in> set ms. msg_guild m = Some g" using Cons.prems(1) by simp
  then have "run_messages uid (fst (handle_commands w uid st m)) ms g =
      run_messages uid (fst (handle_commands w uid st' m)) ms g \<and>
    guild_outputs uid (fst (handle_commands w uid st m)) g ms =
      guild_outputs uid (fst (handle_commands w uid st' m)) g ms"
    using loc by (intro Cons.IH) auto
  with loc g show ?case by (simp add: wm)
qed

text \<open>
  C9. Guilds are isolated along any run: after a run that interleaves the messages of
  many guilds, a guild's state, and the requests and outcome of each of its messages, are
  those of the run of its own messages alone, in the same order. Only the order of one
  guild's messages matters to it.
\<close>

theorem guild_projection:
  "run_messages uid st ms g = run_messages uid st (filter (\<lambda>(w, m). msg_guild m = Some g) ms) g \<and>
   guild_outputs uid st g ms = guild_outputs uid st g (filter (\<lambda>(w, m). msg_guild m = Some g) ms)"
proof (induction ms arbitrary: st)
  case Nil
  then show ?case by simp
next
  case (Cons wm ms)
  obtain w m where wm: "wm = (w, m)" by fastforce
  let ?own = "filter (\<lambda>(w, m). msg_guild m = Some g) ms"
  have IH: "run_messages uid (fst (handle_commands w uid st m)) ms g =
        run_messages uid (fst (handle_commands w uid st m)) ?own g \<and>
      guild_outputs uid (fst (handle_commands w uid st m)) g ms =
        guild_outputs uid (fst (handle_commands w uid st m)) g ?own"
    by (rule Cons.IH)
  show ?case
  proof (cases "msg_guild m = Some g")
    case True
    with IH show ?thesis by (simp add: wm)
  next
    case False
    have "fst (handle_commands w uid st m) g = st g" using False by (rule handle_commands_other_guild)
    then have "run_messages uid (fst (handle_commands w uid st m)) ?own g = run_messages uid st ?own g \<and>
        guild_outputs uid (fst (handle_commands w uid st m)) g ?own = guild_outputs uid st g ?own"
      by (intro run_messages_local) auto
    with IH False show ?thesis by (simp add: wm)
  qed
qed

end
